theory Spec2Isabelle
  imports Complex_Main
begin

section \<open>JavaScript strings and errors\<close>

text \<open>
  A JavaScript string is a sequence of UTF-16 code units. The program's regular
  expressions carry no \<open>u\<close> flag, so they too work on code units; a character outside
  the Basic Multilingual Plane (the emoji markers) is its surrogate pair. Code units are
  natural numbers here; \<open>asc\<close> turns an ASCII literal into its code units.
\<close>

type_synonym jsstring = "nat list"

definition asc :: "string \<Rightarrow> jsstring" where
  "asc s = map of_char s"

text \<open>An exception value: its name and its message, as \<open>String(error)\<close> shows them.\<close>

datatype js_error = JsError jsstring jsstring

definition bindE :: "js_error + 'a \<Rightarrow> ('a \<Rightarrow> js_error + 'b) \<Rightarrow> js_error + 'b" where
  "bindE m f = (case m of Inl e \<Rightarrow> Inl e | Inr x \<Rightarrow> f x)"

text \<open>\<open>s.startsWith(p)\<close>.\<close>

definition startsWith :: "jsstring \<Rightarrow> jsstring \<Rightarrow> bool" where
  "startsWith s p = (take (length p) s = p)"

section \<open>The data model (core/reviewer.ts)\<close>

record CodeDiff =
  oldPath :: jsstring
  newPath :: jsstring
  oldContent :: jsstring
  newContent :: jsstring
  diffContent :: jsstring
  language :: "jsstring option"

text \<open>
  The four optional pattern lists of \<open>config.review\<close>; \<open>None\<close> is an absent
  (\<open>undefined\<close>) field. An array, also an empty one, is truthy.
\<close>

record FilterConfig =
  ignoreFiles :: "jsstring list option"
  ignorePaths :: "jsstring list option"
  includePatterns :: "jsstring list option"
  excludePatterns :: "jsstring list option"

section \<open>Diff filter: \<open>CodeReviewer.matchPatterns\<close> and \<open>CodeReviewer.filterDiffs\<close>\<close>

text \<open>
  \<open>new RegExp(source)\<close> is the host's regular-expression engine, not code of the
  repository: it is a parameter. The constructor either throws (\<open>Inl\<close>) or gives a
  regular expression, which is used only through \<open>.test\<close>, a predicate on strings.
\<close>

type_synonym RegExp_ctor = "jsstring \<Rightarrow> js_error + (jsstring \<Rightarrow> bool)"

text \<open>
  \<open>pattern.replace(/\./g, '\\.')\<close> and \<open>.replace(/\*/g, '.*')\<close>: a global replacement
  of one character by a replacement text without \<open>$\<close>. Code units: 46 is \<open>.\<close>,
  42 is \<open>*\<close>, 92 is the backslash. \<open>pattern.includes('*')\<close> is \<open>42 \<in> set pattern\<close>.
\<close>

definition escapeDots :: "jsstring \<Rightarrow> jsstring" where
  "escapeDots p = concat (map (\<lambda>c. if c = 46 then [92, 46] else [c]) p)"

definition expandStars :: "jsstring \<Rightarrow> jsstring" where
  "expandStars p = concat (map (\<lambda>c. if c = 42 then [46, 42] else [c]) p)"

definition regexSource :: "jsstring \<Rightarrow> jsstring" where
  "regexSource pattern = asc ''^'' @ expandStars (escapeDots pattern) @ asc ''$''"

text \<open>The callback of \<open>patterns.some\<close> in \<open>matchPatterns\<close>, for one pattern.\<close>

definition matchPattern :: "RegExp_ctor \<Rightarrow> jsstring \<Rightarrow> jsstring \<Rightarrow> js_error + bool" where
  "matchPattern RegExp_new filePath pattern =
     (if 42 \<in> set pattern
      then bindE (RegExp_new (regexSource pattern)) (\<lambda>re. Inr (re filePath))
      else Inr (filePath = pattern))"

text \<open>
  \<open>Array.prototype.some\<close> with a callback that may throw: it stops at the first
  element for which the callback is true, and an exception ends it.
\<close>

fun some_e :: "('a \<Rightarrow> js_error + bool) \<Rightarrow> 'a list \<Rightarrow> js_error + bool" where
  "some_e f [] = Inr False"
| "some_e f (x # xs) = bindE (f x) (\<lambda>b. if b then Inr True else some_e f xs)"

definition matchPatterns :: "RegExp_ctor \<Rightarrow> jsstring \<Rightarrow> jsstring list \<Rightarrow> js_error + bool" where
  "matchPatterns RegExp_new filePath patterns = some_e (matchPattern RegExp_new filePath) patterns"

text \<open>The callback of \<open>diffs.filter\<close> in \<open>filterDiffs\<close>: is the diff kept?\<close>

definition keepDiff :: "RegExp_ctor \<Rightarrow> FilterConfig \<Rightarrow> CodeDiff \<Rightarrow> js_error + bool" where
  "keepDiff RegExp_new cfg diff =
     (let filePath = newPath diff in
      bindE (case ignoreFiles cfg of None \<Rightarrow> Inr False
             | Some pats \<Rightarrow> matchPatterns RegExp_new filePath pats)
        (\<lambda>ignored.
          if ignored then Inr False
          else if (case ignorePaths cfg of None \<Rightarrow> False
                   | Some paths \<Rightarrow> list_ex (\<lambda>path. startsWith filePath path) paths)
          then Inr False
          else
            bindE (case includePatterns cfg of None \<Rightarrow> Inr False
                   | Some pats \<Rightarrow>
                       if length pats > 0
                       then bindE (matchPatterns RegExp_new filePath pats) (\<lambda>m. Inr (\<not> m))
                       else Inr False)
              (\<lambda>notIncluded.
                if notIncluded then Inr False
                else
                  bindE (case excludePatterns cfg of None \<Rightarrow> Inr False
                         | Some pats \<Rightarrow> matchPatterns RegExp_new filePath pats)
                    (\<lambda>excluded. if excluded then Inr False else Inr True))))"

fun filter_e :: "('a \<Rightarrow> js_error + bool) \<Rightarrow> 'a list \<Rightarrow> js_error + 'a list" where
  "filter_e f [] = Inr []"
| "filter_e f (x # xs) =
     bindE (f x) (\<lambda>keep. bindE (filter_e f xs) (\<lambda>rest. Inr (if keep then x # rest else rest)))"

definition filterDiffs ::
  "RegExp_ctor \<Rightarrow> FilterConfig \<Rightarrow> CodeDiff list \<Rightarrow> js_error + CodeDiff list" where
  "filterDiffs RegExp_new cfg diffList = filter_e (keepDiff RegExp_new cfg) diffList"

subsection \<open>The decision order and the matcher, as the specification words them\<close>

text \<open>
  The specification's matcher: one pass over the pattern that escapes each \<open>.\<close> and
  turns each \<open>*\<close> into \<open>.*\<close>, anchored at both ends.
\<close>

definition spec_regexSource :: "jsstring \<Rightarrow> jsstring" where
  "spec_regexSource pattern =
     asc ''^''
     @ concat (map (\<lambda>c. if c = 46 then [92, 46] else if c = 42 then [46, 42] else [c]) pattern)
     @ asc ''$''"

text \<open>
  One pattern against one path. The constructor may reject the source of a wildcard
  pattern; its exception is the outcome then.
\<close>

definition spec_match :: "RegExp_ctor \<Rightarrow> jsstring \<Rightarrow> jsstring \<Rightarrow> js_error + bool" where
  "spec_match RegExp_new path pattern =
     (if 42 \<in> set pattern
      then (case RegExp_new (spec_regexSource pattern) of
              Inl e \<Rightarrow> Inl e
            | Inr re \<Rightarrow> Inr (re path))
      else Inr (path = pattern))"

text \<open>
  A pattern list against one path: the patterns are tried from left to right, and the
  first one that matches or that the constructor rejects gives the outcome; the patterns
  after it are not looked at. An absent list matches nothing.
\<close>

definition spec_anyMatch ::
  "RegExp_ctor \<Rightarrow> jsstring \<Rightarrow> jsstring list option \<Rightarrow> js_error + bool" where
  "spec_anyMatch RegExp_new path pats =
     (case pats of
        None \<Rightarrow> Inr False
      | Some ps \<Rightarrow>
          (case find (\<lambda>p. spec_match RegExp_new path p \<noteq> Inr False) ps of
             None \<Rightarrow> Inr False
           | Some p \<Rightarrow> spec_match RegExp_new path p))"

text \<open>
  The five rules of the specification, first matching rule wins: the decision for a path
  is \<open>Excluded n\<close> with the number of the rule that excludes it, or \<open>Included\<close> when
  none does. The rules are tried in their order, so a pattern list is looked at only when
  no earlier rule has decided; \<open>Throws e\<close> is the outcome when a pattern that is reached
  is rejected by the constructor.
\<close>

datatype decision = Included | Excluded nat | Throws js_error

definition spec_decision :: "RegExp_ctor \<Rightarrow> FilterConfig \<Rightarrow> jsstring \<Rightarrow> decision" where
  "spec_decision RegExp_new cfg path =
     (case spec_anyMatch RegExp_new path (ignoreFiles cfg) of
        Inl e \<Rightarrow> Throws e
      | Inr ignored \<Rightarrow>
          if ignored then Excluded 1
          else if (case ignorePaths cfg of None \<Rightarrow> False
                   | Some paths \<Rightarrow> list_ex (\<lambda>p. startsWith path p) paths) then Excluded 2
          else (case (case includePatterns cfg of
                        None \<Rightarrow> Inr True
                      | Some ps \<Rightarrow> if ps = [] then Inr True
                                   else spec_anyMatch RegExp_new path (Some ps)) of
                  Inl e \<Rightarrow> Throws e
                | Inr wanted \<Rightarrow>
                    if \<not> wanted then Excluded 3
                    else (case spec_anyMatch RegExp_new path (excludePatterns cfg) of
                            Inl e \<Rightarrow> Throws e
                          | Inr excluded \<Rightarrow> if excluded then Excluded 4 else Included)))"

text \<open>
  The filter over a list of diffs: the diffs are decided from first to last; the first
  decision that throws ends the filter with that exception, otherwise the included diffs
  are returned in their order.
\<close>

definition thrown :: "decision \<Rightarrow> js_error option" where
  "thrown dec = (case dec of Throws e \<Rightarrow> Some e | Included \<Rightarrow> None | Excluded n \<Rightarrow> None)"

definition spec_filter ::
  "RegExp_ctor \<Rightarrow> FilterConfig \<Rightarrow> CodeDiff list \<Rightarrow> js_error + CodeDiff list" where
  "spec_filter RegExp_new cfg diffList =
     (case List.map_filter (\<lambda>d. thrown (spec_decision RegExp_new cfg (newPath d))) diffList of
        [] \<Rightarrow> Inr (filter (\<lambda>d. spec_decision RegExp_new cfg (newPath d) = Included) diffList)
      | e # es \<Rightarrow> Inl e)"

text \<open>
  Every wildcard pattern of the configuration is accepted by the regular-expression
  constructor. (A pattern such as \<open>*(\<close> gives the source \<open>^.*($\<close>, which the constructor
  rejects with a SyntaxError.)
\<close>

definition patternsOf :: "FilterConfig \<Rightarrow> jsstring list" where
  "patternsOf cfg =
     (case ignoreFiles cfg of None \<Rightarrow> [] | Some ps \<Rightarrow> ps)
     @ (case includePatterns cfg of None \<Rightarrow> [] | Some ps \<Rightarrow> ps)
     @ (case excludePatterns cfg of None \<Rightarrow> [] | Some ps \<Rightarrow> ps)"

definition patternOk :: "RegExp_ctor \<Rightarrow> jsstring \<Rightarrow> bool" where
  "patternOk RegExp_new pattern =
     (42 \<in> set pattern \<longrightarrow>
        (case RegExp_new (regexSource pattern) of Inl e \<Rightarrow> False | Inr re \<Rightarrow> True))"

subsection \<open>A reference engine for the sources the matcher builds\<close>

text \<open>
  For evaluating the filter on examples: the regular expressions \<open>^ item* $\<close> whose
  items are an escaped dot, the wildcard \<open>.*\<close>, or a character that is not a syntax
  character of the pattern language (the backslash and \<open>^ $ . * + ? ( ) [ ] { } |\<close>).
  These are the sources that \<open>regexSource\<close> gives for patterns made of \<open>*\<close>, \<open>.\<close> and ordinary characters. \<open>.\<close> matches every code unit
  except the line terminators; \<open>$\<close> (no \<open>m\<close> flag) matches at the end of the input only.
  An opening parenthesis in a source that holds no backslash, no \<open>[\<close> and no \<open>)\<close> opens a
  group that is never closed: the constructor rejects such a source with a SyntaxError,
  as it does for \<open>^.*($\<close>. Any other source outside the fragment is answered with an error
  that names it as such.
\<close>

datatype re_item = Lit nat | AnyStar

definition isSyntaxChar :: "nat \<Rightarrow> bool" where
  "isSyntaxChar c = (c \<in> set (92 # asc ''^$.*+?()[]{}|''))"

fun parseItems :: "jsstring \<Rightarrow> re_item list option" where
  "parseItems [] = Some []"
| "parseItems [c] = (if isSyntaxChar c then None else map_option (Cons (Lit c)) (parseItems []))"
| "parseItems (c # d # r) =
     (if c = 92 \<and> d = 46 then map_option (Cons (Lit 46)) (parseItems r)
      else if c = 46 \<and> d = 42 then map_option (Cons AnyStar) (parseItems r)
      else if isSyntaxChar c then None
      else map_option (Cons (Lit c)) (parseItems (d # r)))"

definition isLineTerminator :: "nat \<Rightarrow> bool" where
  "isLineTerminator c = (c = 10 \<or> c = 13 \<or> c = 8232 \<or> c = 8233)"

fun itemsMatch :: "re_item list \<Rightarrow> jsstring \<Rightarrow> bool" where
  "itemsMatch [] s = (s = [])"
| "itemsMatch (Lit c # r) [] = False"
| "itemsMatch (Lit c # r) (x # xs) = (if x = c then itemsMatch r xs else False)"
| "itemsMatch (AnyStar # r) [] = itemsMatch r []"
| "itemsMatch (AnyStar # r) (x # xs) =
     (if itemsMatch r (x # xs) then True
      else if isLineTerminator x then False
      else itemsMatch (AnyStar # r) xs)"

definition unterminatedGroup :: "jsstring \<Rightarrow> bool" where
  "unterminatedGroup source =
     (40 \<in> set source \<and> 41 \<notin> set source \<and> 91 \<notin> set source \<and> 92 \<notin> set source)"

definition RegExp_fragment :: RegExp_ctor where
  "RegExp_fragment source =
     (if unterminatedGroup source
      then Inl (JsError (asc ''SyntaxError'')
                  (asc ''Invalid regular expression: /'' @ source @ asc ''/: Unterminated group''))
      else (case source of
              [] \<Rightarrow> Inl (JsError (asc ''Unsupported'') source)
            | c # r \<Rightarrow>
                if c = 94 \<and> r \<noteq> [] \<and> last r = 36
                then (case parseItems (butlast r) of
                        None \<Rightarrow> Inl (JsError (asc ''Unsupported'') source)
                      | Some items \<Rightarrow> Inr (itemsMatch items))
                else Inl (JsError (asc ''Unsupported'') source)))"

text \<open>An example configuration and change set.\<close>

definition diffOf :: "jsstring \<Rightarrow> CodeDiff" where
  "diffOf path = \<lparr>oldPath = path, newPath = path, oldContent = [], newContent = [],
     diffContent = [], language = None\<rparr>"

definition exampleConfig :: FilterConfig where
  "exampleConfig = \<lparr>ignoreFiles = Some [asc ''*.min.js''], ignorePaths = Some [asc ''dist/''],
     includePatterns = Some [asc ''*.js''], excludePatterns = Some [asc ''*.test.js'']\<rparr>"

definition exampleDiffs :: "CodeDiff list" where
  "exampleDiffs = map diffOf [asc ''lib/a.min.js'', asc ''dist/x.js'', asc ''src/app.js'',
     asc ''src/app.ts'', asc ''src/app.test.js'']"

text \<open>
  Two configurations with the pattern \<open>*(\<close>, whose source \<open>^.*($\<close> the constructor
  rejects: as the only exclude pattern, and as an include and an exclude pattern behind
  an ignore-file pattern that matches every \<open>.js\<close> path.
\<close>

definition rejectedExclude :: FilterConfig where
  "rejectedExclude = \<lparr>ignoreFiles = None, ignorePaths = None, includePatterns = None,
     excludePatterns = Some [asc ''*(''] \<rparr>"

definition shadowedExclude :: FilterConfig where
  "shadowedExclude = \<lparr>ignoreFiles = Some [asc ''*.js''], ignorePaths = None,
     includePatterns = Some [asc ''*(''], excludePatterns = Some [asc ''*(''] \<rparr>"


section \<open>Prompt builder: \<open>OpenAIProvider.buildReviewPrompt\<close> and \<open>buildSummaryPrompt\<close>\<close>

subsection \<open>\<open>String.prototype.replace\<close> with a string pattern and a string replacement\<close>

text \<open>
  \<open>splitAtFirst s p\<close> is the text before and after the first occurrence of \<open>p\<close> in \<open>s\<close>.
\<close>

fun splitAtFirst :: "jsstring \<Rightarrow> jsstring \<Rightarrow> (jsstring \<times> jsstring) option" where
  "splitAtFirst [] p = (if p = [] then Some ([], []) else None)"
| "splitAtFirst (c # cs) p =
     (if startsWith (c # cs) p then Some ([], drop (length p) (c # cs))
      else (case splitAtFirst cs p of None \<Rightarrow> None | Some (b, a) \<Rightarrow> Some (c # b, a)))"

text \<open>
  The language's \<open>GetSubstitution\<close> for a string pattern (no captures): in the replacement
  text \<open>$$\<close> stands for \<open>$\<close>, \<open>$&\<close> for the matched text, \<open>$`\<close> for the text before the
  match and \<open>$'\<close> for the text after it; every other \<open>$\<close> stands for itself.
  Code units: 36 is \<open>$\<close>, 38 is \<open>&\<close>, 96 the backquote, 39 the quote.
\<close>

fun GetSubstitution :: "jsstring \<Rightarrow> jsstring \<Rightarrow> jsstring \<Rightarrow> jsstring \<Rightarrow> jsstring" where
  "GetSubstitution matched before after [] = []"
| "GetSubstitution matched before after [c] = [c]"
| "GetSubstitution matched before after (c # d # r) =
     (if c = 36 then
        (if d = 36 then 36 # GetSubstitution matched before after r
         else if d = 38 then matched @ GetSubstitution matched before after r
         else if d = 96 then before @ GetSubstitution matched before after r
         else if d = 39 then after @ GetSubstitution matched before after r
         else 36 # GetSubstitution matched before after (d # r))
      else c # GetSubstitution matched before after (d # r))"

definition replace_str :: "jsstring \<Rightarrow> jsstring \<Rightarrow> jsstring \<Rightarrow> jsstring" where
  "replace_str s searchValue replaceValue =
     (case splitAtFirst s searchValue of
        None \<Rightarrow> s
      | Some (before, after) \<Rightarrow>
          before @ GetSubstitution searchValue before after replaceValue @ after)"

subsection \<open>The review prompt\<close>

text \<open>
  \<open>config.review?.prompts\<close>: each optional template is \<open>None\<close> when it, or an object on
  the way to it, is absent. A template is used when it is truthy: present and not empty.
\<close>

record PromptConfig =
  systemPrompt :: "jsstring option"
  reviewPrompt :: "jsstring option"
  summaryPrompt :: "jsstring option"

definition defaultReviewPrompt :: "jsstring \<Rightarrow> jsstring \<Rightarrow> jsstring \<Rightarrow> jsstring" where
  "defaultReviewPrompt lang path content =
     ([35831, 20197, 19987, 19994, 20195, 30721, 23457, 26597, 32773, 30340, 36523, 20221]
      @ [23457, 26597, 20197, 19979])
     @ lang
     @ ([20195, 30721, 24046, 24322, 12290, 10, 10, 25991, 20214, 36335, 24452] @ asc '': '')
     @ path
     @ ([10, 10, 20195, 30721, 24046, 24322, 58, 10] @ asc ''```diff'' @ [10])
     @ content
     @ ([10] @ asc ''```''
      @ [10, 10, 35831, 25353, 29031, 20197, 19979, 32467, 26500, 25552, 20379, 35780]
      @ [35770, 65306, 10, 10] @ asc ''1. **'' @ [24635, 20307, 35780, 20215] @ asc ''**: ''
      @ [31616, 35201, 24635, 32467, 20195, 30721, 36136, 37327, 65292, 21253, 25324, 31215]
      @ [26497, 26041, 38754, 21644, 38656, 35201, 25913, 36827, 30340, 22320, 26041, 10]
      @ asc ''2. **'' @ [20851, 38190, 21457, 29616] @ asc ''**: ''
      @ [25353, 20248, 20808, 32423, 21015, 20986, 26368, 37325, 35201, 30340, 38382, 39064]
      @ [10] @ asc ''3. **'' @ [35814, 32454, 20998, 26512] @ asc ''**: ''
      @ [23545, 27599, 20010, 38382, 39064, 36827, 34892, 35814, 32454, 35828, 26126, 65292]
      @ [27599, 20010, 38382, 39064, 21253, 21547, 65306, 10] @ asc ''   - ''
      @ [20005, 37325, 24615] @ asc '': '' @ [20302] @ asc ''(info) | '' @ [20013]
      @ asc ''(warning) | '' @ [39640] @ asc ''(error)'' @ [10] @ asc ''   - ''
      @ [38382, 39064, 20301, 32622] @ asc '': '' @ [20855, 20307, 21040, 34892, 21495, 10]
      @ asc ''   - '' @ [38382, 39064, 25551, 36848] @ asc '': ''
      @ [28165, 26224, 35828, 26126, 38382, 39064, 25152, 22312, 10] @ asc ''   - ''
      @ [25913, 36827, 24314, 35758] @ asc '': ''
      @ [25552, 20379, 20855, 20307, 30340, 25913, 36827, 26041, 27861, 65292, 21487, 33021]
      @ [21253, 21547, 20195, 30721, 31034, 20363, 10] @ asc ''   - ''
      @ [35299, 37322, 29702, 30001] @ asc '': ''
      @ [31616, 35201, 35299, 37322, 20026, 20160, 20040, 36825, 26159, 19968, 20010, 38382]
      @ [39064, 25110, 20026, 20160, 20040, 24314, 35758, 30340, 25913, 36827, 26159, 26377]
      @ [30410, 30340, 10] @ asc ''4. **'' @ [26368, 20339, 23454, 36341] @ asc ''**: ''
      @ [25351, 20986, 20195, 30721, 20013, 36981, 24490, 25110, 36829, 21453, 30340, 26368]
      @ [20339, 23454, 36341, 10] @ asc ''5. **'' @ [23398, 20064, 36164, 28304]
      @ asc ''**: ''
      @ [37196, 24773, 25552, 20379, 30456, 20851, 25991, 26723, 25110, 23398, 20064, 36164]
      @ [28304, 38142, 25509, 10, 10, 35831, 20197] @ asc ''JSON''
      @ [26684, 24335, 36820, 22238, 21709, 24212, 65292, 21253, 21547, 20197, 19979, 23383]
      @ [27573, 58, 10] @ asc ''1. file: '' @ [25991, 20214, 36335, 24452, 10]
      @ asc ''2. summary: '' @ [24635, 20307, 35780, 20215, 25688, 35201, 10]
      @ asc ''3. issues: ''
      @ [38382, 39064, 25968, 32452, 65292, 27599, 20010, 38382, 39064, 21253, 21547, 58]
      @ [10] @ asc ''   - severity: '' @ [39] @ asc ''info'' @ [39] @ asc '' | '' @ [39]
      @ asc ''warning'' @ [39] @ asc '' | '' @ [39] @ asc ''error'' @ [39, 10]
      @ asc ''   - line: '' @ [34892, 21495, 40, 21487, 36873, 41, 10]
      @ asc ''   - message: '' @ [38382, 39064, 25551, 36848, 10]
      @ asc ''   - suggestion: '' @ [25913, 36827, 24314, 35758, 40, 21487, 36873, 41, 10]
      @ asc ''   - code: ''
      @ [31034, 20363, 20195, 30721, 40, 21487, 36873, 41, 10, 10, 30830, 20445]
      @ [20998, 26512, 20840, 38754, 19988, 20855, 26377, 24314, 35774, 24615, 65292, 37325]
      @ [28857, 20851, 27880, 21487, 34892, 30340, 25913, 36827, 32780, 19981, 20165, 20165]
      @ [26159, 25351, 20986, 38382, 39064, 12290])"

definition buildReviewPrompt :: "PromptConfig \<Rightarrow> CodeDiff \<Rightarrow> jsstring \<Rightarrow> jsstring" where
  "buildReviewPrompt config diff lang =
     (case reviewPrompt config of
        None \<Rightarrow> defaultReviewPrompt lang (newPath diff) (diffContent diff)
      | Some customPrompt \<Rightarrow>
          if customPrompt \<noteq> []
          then replace_str
                 (replace_str
                    (replace_str customPrompt (asc ''{{language}}'') lang)
                    (asc ''{{filePath}}'') (newPath diff))
                 (asc ''{{diffContent}}'') (diffContent diff)
          else defaultReviewPrompt lang (newPath diff) (diffContent diff))"

text \<open>
  The specification's reading: the first occurrence of each placeholder gives way to the
  corresponding value, inserted as it is.
\<close>

definition spec_substituteFirst :: "jsstring \<Rightarrow> jsstring \<Rightarrow> jsstring \<Rightarrow> jsstring" where
  "spec_substituteFirst template placeholder v =
     (case splitAtFirst template placeholder of
        None \<Rightarrow> template
      | Some (before, after) \<Rightarrow> before @ v @ after)"

definition spec_customReviewPrompt :: "jsstring \<Rightarrow> CodeDiff \<Rightarrow> jsstring \<Rightarrow> jsstring" where
  "spec_customReviewPrompt template diff lang =
     spec_substituteFirst
       (spec_substituteFirst
          (spec_substituteFirst template (asc ''{{language}}'') lang)
          (asc ''{{filePath}}'') (newPath diff))
       (asc ''{{diffContent}}'') (diffContent diff)"

text \<open>A custom template, and the diff of a shell script that prints its process id.\<close>

definition shellTemplate :: PromptConfig where
  "shellTemplate = \<lparr>systemPrompt = None,
     reviewPrompt = Some (asc ''Review {{filePath}} ({{language}}): {{diffContent}}''),
     summaryPrompt = None\<rparr>"

definition shellDiff :: CodeDiff where
  "shellDiff = \<lparr>oldPath = (asc ''run.sh''), newPath = (asc ''run.sh''), oldContent = [],
     newContent = [], diffContent = (asc ''+echo $$''), language = None\<rparr>"

subsection \<open>The typed review result\<close>

text \<open>
  \<open>ReviewResult\<close> as core/reviewer.ts declares it. The record is polymorphic in the
  issue and summary types: the declared instance has issues of type \<open>Issue\<close> and a string
  summary. A line number is a natural number here (the declared type is \<open>number\<close>).
\<close>

datatype Severity = Info | Warning | Error

record Issue =
  line :: "nat option"
  severity :: Severity
  message :: jsstring
  suggestion :: "jsstring option"
  code :: "jsstring option"

text \<open>The field \<open>file\<close> is \<open>file_name\<close> here.\<close>

record ('i, 's) ReviewResult =
  file_name :: jsstring
  issues :: "'i list"
  summary :: 's

type_synonym TypedResult = "(Issue, jsstring) ReviewResult"

subsection \<open>The summary prompt\<close>

text \<open>\<open>String(n)\<close> for a natural number: its decimal digits.\<close>

fun String_nat :: "nat \<Rightarrow> jsstring" where
  "String_nat n = (if n < 10 then [48 + n] else String_nat (n div 10) @ [48 + n mod 10])"

text \<open>\<open>xs.join(sep)\<close>.\<close>

fun join :: "jsstring \<Rightarrow> jsstring list \<Rightarrow> jsstring" where
  "join sep [] = []"
| "join sep [x] = x"
| "join sep (x # y # r) = x @ sep @ join sep (y # r)"

text \<open>
  The numbers of \<open>Math.round(count / issuesCount * 100 || 0)\<close>. Dividing by zero gives
  \<open>NaN\<close> (0/0) or \<open>Infinity\<close>; both stay what they are when multiplied by 100.
  (\<open>-Infinity\<close> does not arise from counts; it is a number all the same.)
  For a non-zero divisor the value of \<open>count / issuesCount * 100\<close> is a finite binary64
  number, computed by the host's floating-point unit: the parameter \<open>fdiv100\<close>.
  \<open>x || 0\<close> is 0 for the falsy numbers \<open>NaN\<close> and 0; \<open>Math.round\<close> keeps \<open>NaN\<close> and
  \<open>Infinity\<close> and rounds a finite number to the nearest integer, a tie upwards.
\<close>

datatype jsnum = NaN | PosInfinity | NegInfinity | Finite rat

definition divTimes100 :: "(nat \<Rightarrow> nat \<Rightarrow> rat) \<Rightarrow> nat \<Rightarrow> nat \<Rightarrow> jsnum" where
  "divTimes100 fdiv100 count totalCount =
     (if totalCount = 0 then (if count = 0 then NaN else PosInfinity)
      else Finite (fdiv100 count totalCount))"

definition orZero :: "jsnum \<Rightarrow> jsnum" where
  "orZero x = (case x of NaN \<Rightarrow> Finite 0 | PosInfinity \<Rightarrow> PosInfinity
               | NegInfinity \<Rightarrow> NegInfinity
               | Finite q \<Rightarrow> if q = 0 then Finite 0 else Finite q)"

definition Math_round :: "jsnum \<Rightarrow> jsnum" where
  "Math_round x = (case x of NaN \<Rightarrow> NaN | PosInfinity \<Rightarrow> PosInfinity
                   | NegInfinity \<Rightarrow> NegInfinity
                   | Finite q \<Rightarrow> Finite (of_int \<lfloor>q + 1 / 2\<rfloor>))"

text \<open>\<open>String(x)\<close> in a template literal, for the integral numbers \<open>Math.round\<close> gives.\<close>

definition String_num :: "jsnum \<Rightarrow> jsstring" where
  "String_num x = (case x of NaN \<Rightarrow> (asc ''NaN'') | PosInfinity \<Rightarrow> (asc ''Infinity'')
                   | NegInfinity \<Rightarrow> (asc ''-Infinity'')
                   | Finite q \<Rightarrow> if q < 0 then 45 # String_nat (nat (- \<lfloor>q\<rfloor>))
                                 else String_nat (nat \<lfloor>q\<rfloor>))"

definition percentText :: "(nat \<Rightarrow> nat \<Rightarrow> rat) \<Rightarrow> nat \<Rightarrow> nat \<Rightarrow> jsstring" where
  "percentText fdiv100 count totalCount =
     String_num (Math_round (orZero (divTimes100 fdiv100 count totalCount)))"

definition countSeverity :: "Severity \<Rightarrow> Issue list \<Rightarrow> nat" where
  "countSeverity s xs = length (filter (\<lambda>i. severity i = s) xs)"

definition toUpperCase_severity :: "Severity \<Rightarrow> jsstring" where
  "toUpperCase_severity s =
     (case s of Info \<Rightarrow> (asc ''INFO'') | Warning \<Rightarrow> (asc ''WARNING'') | Error \<Rightarrow> (asc ''ERROR''))"

definition renderIssue :: "Issue \<Rightarrow> jsstring" where
  "renderIssue issue =
     (let lineInfo =
            (case line issue of
               None \<Rightarrow> [36890, 29992]
             | Some n \<Rightarrow> if n = 0 then [36890, 29992] else [31532] @ String_nat n @ [34892]);
          suggestionText =
            (case suggestion issue of
               None \<Rightarrow> []
             | Some s \<Rightarrow> if s = [] then [] else ([10, 24314, 35758] @ asc '': '') @ s)
      in (asc ''- ['') @ toUpperCase_severity (severity issue) @ (asc ''] '') @ lineInfo @ (asc '': '')
         @ message issue @ suggestionText)"

definition renderResult :: "TypedResult \<Rightarrow> jsstring" where
  "renderResult result =
     (let errorCount = countSeverity Error (issues result);
          warningCount = countSeverity Warning (issues result);
          infoCount = countSeverity Info (issues result);
          severitySummary =
            ([20005, 37325, 38382, 39064] @ asc '': '') @ String_nat errorCount
            @ ([20010] @ asc '', '' @ [35686, 21578] @ asc '': '') @ String_nat warningCount
            @ ([20010] @ asc '', '' @ [20449, 24687] @ asc '': '') @ String_nat infoCount
            @ [20010]
      in (asc ''## '' @ [25991, 20214] @ asc '': '') @ file_name result @ [10]
         @ severitySummary @ [10]
         @ (if summary result \<noteq> []
            then ([10, 25991, 20214, 25688, 35201] @ asc '': '') @ summary result @ [10]
            else [])
         @ [10, 10, 35814, 32454, 38382, 39064, 58, 10]
         @ join [10] (map renderIssue (issues result))
         @ [10])"

definition issuesCountOf :: "TypedResult list \<Rightarrow> nat" where
  "issuesCountOf results = foldl (\<lambda>sum result. sum + length (issues result)) 0 results"

definition severityDistribution :: "(nat \<Rightarrow> nat \<Rightarrow> rat) \<Rightarrow> TypedResult list \<Rightarrow> jsstring" where
  "severityDistribution fdiv100 results =
     (let issuesCount = issuesCountOf results;
          allIssues = concat (map issues results);
          errorCount = countSeverity Error allIssues;
          warningCount = countSeverity Warning allIssues;
          infoCount = countSeverity Info allIssues
      in ([20005, 37325, 38382, 39064] @ asc '': '') @ String_nat errorCount
         @ ([20010] @ asc '' ('') @ percentText fdiv100 errorCount issuesCount
         @ (asc ''%)'' @ [10, 35686, 21578] @ asc '': '') @ String_nat warningCount
         @ ([20010] @ asc '' ('') @ percentText fdiv100 warningCount issuesCount
         @ (asc ''%)'' @ [10, 20449, 24687] @ asc '': '') @ String_nat infoCount
         @ ([20010] @ asc '' ('') @ percentText fdiv100 infoCount issuesCount
         @ (asc ''%)''))"

definition defaultSummaryPrompt :: "nat \<Rightarrow> nat \<Rightarrow> jsstring \<Rightarrow> jsstring \<Rightarrow> jsstring" where
  "defaultSummaryPrompt filesCount issuesCount distribution detailedResults =
     ([35831, 23545, 20197, 19979, 20195, 30721, 23457, 26597, 32467, 26524, 36827, 34892]
      @ [20840, 38754, 24635, 32467, 65292, 24182, 25552, 20379, 35814, 32454, 30340, 25972]
      @ [20307, 25913, 36827, 24314, 35758, 58, 10, 10, 23457, 26597, 20102, 32])
     @ String_nat filesCount
     @ [32, 20010, 25991, 20214, 65292, 20849, 21457, 29616, 32]
     @ String_nat issuesCount
     @ ([32, 20010, 38382, 39064, 12290, 10, 10, 38382, 39064, 20005, 37325, 31243]
      @ [24230, 20998, 24067, 58, 10])
     @ distribution
     @ [10, 10, 35814, 32454, 23457, 26597, 32467, 26524, 58, 10]
     @ detailedResults
     @ ([10, 10, 35831, 22522, 20110, 20197, 19978, 32467, 26524, 25552, 20379, 58] @ [10]
      @ asc ''1. '' @ [20195, 30721, 24211, 25972, 20307, 36136, 37327, 35780, 20272, 10]
      @ asc ''2. ''
      @ [25353, 25991, 20214, 21015, 20986, 20851, 38190, 38382, 39064, 21450, 24314, 35758]
      @ [10] @ asc ''3. ''
      @ [26368, 24120, 35265, 30340, 38382, 39064, 31867, 22411, 21450, 25913, 36827, 26041]
      @ [21521, 10] @ asc ''4. ''
      @ [20248, 20808, 20462, 22797, 30340, 20851, 38190, 38382, 39064, 10] @ asc ''5. ''
      @ [25972, 20307, 20195, 30721, 36136, 37327, 25913, 36827, 24314, 35758])"

text \<open>
  The last step of \<open>buildSummaryPrompt\<close>: the custom template with its placeholders
  replaced, or the built-in prompt.
\<close>

definition summaryPromptText ::
  "PromptConfig \<Rightarrow> nat \<Rightarrow> nat \<Rightarrow> jsstring \<Rightarrow> jsstring \<Rightarrow> jsstring" where
  "summaryPromptText config filesCount issuesCount detailedResults distribution =
     (case summaryPrompt config of
        None \<Rightarrow> defaultSummaryPrompt filesCount issuesCount distribution detailedResults
      | Some customPrompt \<Rightarrow>
          if customPrompt \<noteq> []
          then replace_str
                 (replace_str
                    (replace_str
                       (replace_str customPrompt (asc ''{{filesCount}}'') (String_nat filesCount))
                       (asc ''{{issuesCount}}'') (String_nat issuesCount))
                    (asc ''{{resultsSummary}}'') detailedResults)
                 (asc ''{{severityDistribution}}'') distribution
          else defaultSummaryPrompt filesCount issuesCount distribution detailedResults)"

definition buildSummaryPrompt ::
  "(nat \<Rightarrow> nat \<Rightarrow> rat) \<Rightarrow> PromptConfig \<Rightarrow> TypedResult list \<Rightarrow> jsstring" where
  "buildSummaryPrompt fdiv100 config results =
     (let filesCount = length results;
          issuesCount = issuesCountOf results;
          detailedResults = join [10, 10] (map renderResult results);
          distribution = severityDistribution fdiv100 results
      in summaryPromptText config filesCount issuesCount detailedResults distribution)"

text \<open>Exact arithmetic, to evaluate examples with; and two reviewed files without findings.\<close>

definition exactDiv100 :: "nat \<Rightarrow> nat \<Rightarrow> rat" where
  "exactDiv100 count totalCount = of_nat count / of_nat totalCount * 100"

definition cleanResults :: "TypedResult list" where
  "cleanResults = [\<lparr>file_name = (asc ''a.ts''), issues = [], summary = (asc ''ok'')\<rparr>,
                   \<lparr>file_name = (asc ''b.ts''), issues = [], summary = []\<rparr>]"

definition distributionOnly :: PromptConfig where
  "distributionOnly = \<lparr>systemPrompt = None, reviewPrompt = None,
     summaryPrompt = Some (asc ''{{filesCount}} files. {{severityDistribution}}'')\<rparr>"

section \<open>Single-file targeted review: \<open>CodeReviewer.reviewSingleFile\<close>\<close>

text \<open>
  The platform and the model provider are external, asynchronous collaborators. Each of
  their operations takes the state of the outside world and gives its outcome (a value
  or an exception) with the new state; the calls made are recorded in order. Console
  output is not modelled.
\<close>

datatype call =
  GetCodeDiffs
| ReviewCode CodeDiff
| SubmitReviewComment jsstring "nat option" jsstring

record 'w Collaborators =
  getCodeDiffs :: "'w \<Rightarrow> (js_error + CodeDiff list) \<times> 'w"
  reviewCode :: "CodeDiff \<Rightarrow> 'w \<Rightarrow> (js_error + TypedResult option) \<times> 'w"
  submitReviewComment :: "jsstring \<Rightarrow> nat option \<Rightarrow> jsstring \<Rightarrow> 'w \<Rightarrow> js_error option \<times> 'w"

definition formatIssueComment :: "Issue \<Rightarrow> jsstring" where
  "formatIssueComment issue =
     (let severityEmoji = (case severity issue of Error \<Rightarrow> [10060] | Warning \<Rightarrow> [9888, 65039]
                           | Info \<Rightarrow> [8505, 65039]);
          comment = severityEmoji @ (asc '' **'') @ message issue @ (asc ''**'' @ [10, 10]);
          comment2 =
            (case suggestion issue of
               None \<Rightarrow> comment
             | Some s \<Rightarrow>
                 if s \<noteq> [] then comment @ ([24314, 35758] @ asc '': '') @ s @ [10, 10] else comment)
      in (case code issue of
            None \<Rightarrow> comment2
          | Some c \<Rightarrow>
              if c \<noteq> []
              then comment2 @ ([31034, 20363, 20195, 30721, 58, 10] @ asc ''```'' @ [10]) @ c @ ([10] @ asc ''```'' @ [10])
              else comment2))"

text \<open>The loop over \<open>reviewResult.issues\<close> that submits one comment per issue.\<close>

fun submitComments ::
  "'w Collaborators \<Rightarrow> jsstring \<Rightarrow> Issue list \<Rightarrow> 'w \<Rightarrow> call list
     \<Rightarrow> js_error option \<times> 'w \<times> call list" where
  "submitComments P targetFile [] w calls = (None, w, calls)"
| "submitComments P targetFile (issue # rest) w calls =
     (let message = formatIssueComment issue;
          calls' = calls @ [SubmitReviewComment targetFile (line issue) message]
      in case submitReviewComment P targetFile (line issue) message w of
           (Some e, w') \<Rightarrow> (Some e, w', calls')
         | (None, w') \<Rightarrow> submitComments P targetFile rest w' calls')"

text \<open>
  The outcome is the returned value (\<open>None\<close> is \<open>null\<close>) or the exception that the
  \<open>catch\<close> block logs and throws again, with the final world and the calls made.
\<close>

definition reviewSingleFile ::
  "'w Collaborators \<Rightarrow> jsstring \<Rightarrow> 'w \<Rightarrow> (js_error + TypedResult option) \<times> 'w \<times> call list" where
  "reviewSingleFile P targetFile w =
     (case getCodeDiffs P w of
        (Inl e, w1) \<Rightarrow> (Inl e, w1, [GetCodeDiffs])
      | (Inr diffList, w1) \<Rightarrow>
          if length diffList = 0 then (Inr None, w1, [GetCodeDiffs])
          else
            (case find (\<lambda>diff. newPath diff = targetFile) diffList of
               None \<Rightarrow> (Inr None, w1, [GetCodeDiffs])
             | Some targetDiff \<Rightarrow>
                 (case reviewCode P targetDiff w1 of
                    (Inl e, w2) \<Rightarrow> (Inl e, w2, [GetCodeDiffs, ReviewCode targetDiff])
                  | (Inr None, w2) \<Rightarrow> (Inr None, w2, [GetCodeDiffs, ReviewCode targetDiff])
                  | (Inr (Some reviewResult), w2) \<Rightarrow>
                      (case submitComments P targetFile (issues reviewResult) w2
                              [GetCodeDiffs, ReviewCode targetDiff] of
                         (Some e, w3, calls) \<Rightarrow> (Inl e, w3, calls)
                       | (None, w3, calls) \<Rightarrow> (Inr (Some reviewResult), w3, calls)))))"

text \<open>
  An example platform whose world counts the operations performed: it has one changed
  file, \<open>a.ts\<close>; its provider finds one issue in whatever it is given.
\<close>

definition examplePlatform :: "nat Collaborators" where
  "examplePlatform =
     \<lparr>getCodeDiffs = (\<lambda>w. (Inr [diffOf (asc ''a.ts'')], Suc w)),
      reviewCode = (\<lambda>d w. (Inr (Some \<lparr>file_name = newPath d,
          issues = [\<lparr>line = Some 3, severity = Warning, message = (asc ''unused variable''),
                     suggestion = None, code = None\<rparr>],
          summary = []\<rparr>), Suc w)),
      submitReviewComment = (\<lambda>f l m w. (None, Suc w))\<rparr>"

section \<open>JavaScript values and \<open>JSON.parse\<close>\<close>

text \<open>
  The values that the response parser handles at run time. What \<open>JSON.parse\<close> returns
  is not checked against any declared type, so the parser's result carries values of
  this type: its issues are a list of values and its summary is a value. An object is
  the list of its own properties.
\<close>

datatype jsval =
  JUndefined
| JNull
| JBool bool
| JNum jsnum
| JStr jsstring
| JArray "jsval list"
| JObject "(jsstring \<times> jsval) list"

type_synonym RawResult = "(jsval, jsval) ReviewResult"

text \<open>\<open>ToBoolean\<close>: the falsy values are \<open>undefined\<close>, \<open>null\<close>, \<open>false\<close>, 0, \<open>NaN\<close> and \<open>''\<close>.\<close>

definition truthy :: "jsval \<Rightarrow> bool" where
  "truthy v = (case v of JUndefined \<Rightarrow> False | JNull \<Rightarrow> False | JBool b \<Rightarrow> b
               | JNum n \<Rightarrow> (case n of NaN \<Rightarrow> False | Finite q \<Rightarrow> q \<noteq> 0 | _ \<Rightarrow> True)
               | JStr s \<Rightarrow> s \<noteq> [] | JArray xs \<Rightarrow> True | JObject kvs \<Rightarrow> True)"

text \<open>
  Reading the property \<open>key\<close> of a value, for the keys \<open>issues\<close>, \<open>summary\<close> and
  \<open>severity\<close>, which no built-in prototype defines: reading from \<open>null\<close> or \<open>undefined\<close>
  throws a TypeError, an object gives its own property or \<open>undefined\<close>, every other
  value gives \<open>undefined\<close>.
\<close>

definition getProp :: "jsval \<Rightarrow> jsstring \<Rightarrow> js_error + jsval" where
  "getProp v key =
     (case v of
        JUndefined \<Rightarrow> Inl (JsError (asc ''TypeError'') ((asc ''Cannot read properties of undefined'')))
      | JNull \<Rightarrow> Inl (JsError (asc ''TypeError'') ((asc ''Cannot read properties of null'')))
      | JObject kvs \<Rightarrow> (case map_of kvs key of None \<Rightarrow> Inr JUndefined | Some x \<Rightarrow> Inr x)
      | _ \<Rightarrow> Inr JUndefined)"

text \<open>
  \<open>JSON.parse\<close> is the host's: the parser of responses takes it as a parameter of this
  type. It throws a SyntaxError or returns a value.
\<close>

type_synonym JSON_parser = "jsstring \<Rightarrow> js_error + jsval"

subsection \<open>A reference \<open>JSON.parse\<close>, to evaluate examples with\<close>

text \<open>
  A recursive-descent parser for the JSON grammar. Numbers are exact rationals (binary64
  rounding and overflow are left out). The first argument of the mutually recursive
  functions is fuel, one list cell per call; twice the length of the text plus two
  cells are enough, since every call but the first comes after a character consumed.
\<close>

definition isDigit :: "nat \<Rightarrow> bool" where
  "isDigit c = (48 \<le> c \<and> c \<le> 57)"

definition jsonWs :: "nat \<Rightarrow> bool" where
  "jsonWs c = (c = 32 \<or> c = 9 \<or> c = 10 \<or> c = 13)"

definition hexValue :: "nat \<Rightarrow> nat option" where
  "hexValue c = (if 48 \<le> c \<and> c \<le> 57 then Some (c - 48)
                 else if 97 \<le> c \<and> c \<le> 102 then Some (c - 87)
                 else if 65 \<le> c \<and> c \<le> 70 then Some (c - 55)
                 else None)"

fun parseStringBody :: "jsstring \<Rightarrow> jsstring \<Rightarrow> (jsstring \<times> jsstring) option" where
  "parseStringBody acc [] = None"
| "parseStringBody acc [c] = (if c = 34 then Some (acc, []) else None)"
| "parseStringBody acc (c # e # r) =
     (if c = 34 then Some (acc, e # r)
      else if c = 92 then
        (if e = 34 \<or> e = 92 \<or> e = 47 then parseStringBody (acc @ [e]) r
         else if e = 98 then parseStringBody (acc @ [8]) r
         else if e = 102 then parseStringBody (acc @ [12]) r
         else if e = 110 then parseStringBody (acc @ [10]) r
         else if e = 114 then parseStringBody (acc @ [13]) r
         else if e = 116 then parseStringBody (acc @ [9]) r
         else if e = 117 then
           (case r of
              h1 # h2 # h3 # h4 # r' \<Rightarrow>
                (case (hexValue h1, hexValue h2, hexValue h3, hexValue h4) of
                   (Some a, Some b, Some c', Some d) \<Rightarrow>
                     parseStringBody (acc @ [((a * 16 + b) * 16 + c') * 16 + d]) r'
                 | _ \<Rightarrow> None)
            | _ \<Rightarrow> None)
         else None)
      else if c < 32 then None
      else parseStringBody (acc @ [c]) (e # r))"

definition digitsValue :: "jsstring \<Rightarrow> nat" where
  "digitsValue ds = foldl (\<lambda>n c. 10 * n + (c - 48)) 0 ds"

definition parseNumber :: "jsstring \<Rightarrow> (jsval \<times> jsstring) option" where
  "parseNumber s =
     (let negative = (s \<noteq> [] \<and> hd s = 45);
          s1 = (if negative then tl s else s);
          intDigits = takeWhile isDigit s1;
          s2 = dropWhile isDigit s1;
          hasFrac = (s2 \<noteq> [] \<and> hd s2 = 46);
          fracDigits = (if hasFrac then takeWhile isDigit (tl s2) else []);
          s3 = (if hasFrac then dropWhile isDigit (tl s2) else s2);
          hasExp = (s3 \<noteq> [] \<and> (hd s3 = 101 \<or> hd s3 = 69));
          s4 = (if hasExp then tl s3 else s3);
          expNegative = (hasExp \<and> s4 \<noteq> [] \<and> hd s4 = 45);
          s5 = (if hasExp \<and> s4 \<noteq> [] \<and> (hd s4 = 45 \<or> hd s4 = 43) then tl s4 else s4);
          expDigits = (if hasExp then takeWhile isDigit s5 else []);
          s6 = (if hasExp then dropWhile isDigit s5 else s3);
          mantissa = (of_nat (digitsValue intDigits) :: rat)
                     + of_nat (digitsValue fracDigits) / 10 ^ length fracDigits;
          scaled = (if expNegative then mantissa / 10 ^ digitsValue expDigits
                    else mantissa * 10 ^ digitsValue expDigits)
      in if intDigits = [] then None
         else if length intDigits > 1 \<and> hd intDigits = 48 then None
         else if hasFrac \<and> fracDigits = [] then None
         else if hasExp \<and> expDigits = [] then None
         else Some (JNum (Finite (if negative then - scaled else scaled)), s6))"

text \<open>A later member with the same key replaces the earlier one.\<close>

fun setProp :: "(jsstring \<times> jsval) list \<Rightarrow> jsstring \<Rightarrow> jsval \<Rightarrow> (jsstring \<times> jsval) list" where
  "setProp [] k v = [(k, v)]"
| "setProp ((k', v') # r) k v = (if k' = k then (k, v) # r else (k', v') # setProp r k v)"

fun parseValue :: "nat list \<Rightarrow> jsstring \<Rightarrow> (jsval \<times> jsstring) option"
  and parseElements :: "nat list \<Rightarrow> jsstring \<Rightarrow> jsval list \<Rightarrow> (jsval \<times> jsstring) option"
  and parseMembers ::
    "nat list \<Rightarrow> jsstring \<Rightarrow> (jsstring \<times> jsval) list \<Rightarrow> (jsval \<times> jsstring) option"
where
  "parseValue [] s = None"
| "parseValue (f # fuel) s =
     (case dropWhile jsonWs s of
        [] \<Rightarrow> None
      | c # cs \<Rightarrow>
          if c = 123 then
            (case dropWhile jsonWs cs of
               [] \<Rightarrow> None
             | d # r \<Rightarrow> if d = 125 then Some (JObject [], r) else parseMembers fuel (d # r) [])
          else if c = 91 then
            (case dropWhile jsonWs cs of
               [] \<Rightarrow> None
             | d # r \<Rightarrow> if d = 93 then Some (JArray [], r) else parseElements fuel (d # r) [])
          else if c = 34 then
            (case parseStringBody [] cs of None \<Rightarrow> None | Some (str, r) \<Rightarrow> Some (JStr str, r))
          else if startsWith (c # cs) (asc ''true'') then Some (JBool True, drop 4 (c # cs))
          else if startsWith (c # cs) (asc ''false'') then Some (JBool False, drop 5 (c # cs))
          else if startsWith (c # cs) (asc ''null'') then Some (JNull, drop 4 (c # cs))
          else parseNumber (c # cs))"
| "parseElements [] s acc = None"
| "parseElements (f # fuel) s acc =
     (case parseValue fuel s of
        None \<Rightarrow> None
      | Some (v, r) \<Rightarrow>
          (case dropWhile jsonWs r of
             [] \<Rightarrow> None
           | c # r' \<Rightarrow>
               if c = 44 then parseElements fuel r' (acc @ [v])
               else if c = 93 then Some (JArray (acc @ [v]), r')
               else None))"
| "parseMembers [] s acc = None"
| "parseMembers (f # fuel) s acc =
     (case dropWhile jsonWs s of
        [] \<Rightarrow> None
      | q # s1 \<Rightarrow>
          if q \<noteq> 34 then None
          else
            (case parseStringBody [] s1 of
               None \<Rightarrow> None
             | Some (key, s2) \<Rightarrow>
                 (case dropWhile jsonWs s2 of
                    [] \<Rightarrow> None
                  | c # s3 \<Rightarrow>
                      if c \<noteq> 58 then None
                      else
                        (case parseValue fuel s3 of
                           None \<Rightarrow> None
                         | Some (v, s4) \<Rightarrow>
                             (case dropWhile jsonWs s4 of
                                [] \<Rightarrow> None
                              | d # s5 \<Rightarrow>
                                  if d = 44 then parseMembers fuel s5 (setProp acc key v)
                                  else if d = 125 then Some (JObject (setProp acc key v), s5)
                                  else None)))))"

definition JSON_parse_ref :: JSON_parser where
  "JSON_parse_ref text =
     (case parseValue (text @ text @ [0, 0]) text of
        None \<Rightarrow> Inl (JsError (asc ''SyntaxError'') (asc ''Unexpected token in JSON''))
      | Some (v, r) \<Rightarrow>
          if dropWhile jsonWs r = [] then Inr v
          else Inl (JsError (asc ''SyntaxError'') (asc ''Unexpected token in JSON'')))"

section \<open>Response parser: \<open>OpenAIProvider.parseReviewResponse\<close>\<close>

text \<open>
  The literals of the source that are not ASCII appear as their code units:
  \<^item> \<open>[55357, 56628]\<close> is U+D83D U+DD34, the red circle U+1F534 (surrogate pair);
  \<^item> \<open>[55357, 57312]\<close> is U+D83D U+DFE0, the orange circle U+1F7E0;
  \<^item> \<open>[55357, 56629]\<close> is U+D83D U+DD35, the blue circle U+1F535;
  \<^item> \<open>[55357, 56481]\<close> is U+D83D U+DCA1, the light bulb U+1F4A1;
  \<^item> \<open>[55357, 56541]\<close> is U+D83D U+DCDD, the memo sign U+1F4DD;
  \<^item> \<open>[20005, 37325, 38382, 39064]\<close> is U+4E25 U+91CD U+95EE U+9898, "serious problem";
  \<^item> \<open>[35686, 21578]\<close> is U+8B66 U+544A, "warning";
  \<^item> \<open>[24314, 35758]\<close> is U+5EFA U+8BAE, "suggestion";
  \<^item> \<open>[31532]\<close> is U+7B2C, the ordinal prefix;
  \<^item> \<open>[34892]\<close> is U+884C, "line";
  \<^item> \<open>[25972, 20307]\<close> is U+6574 U+4F53, "whole";
  \<^item> \<open>[25913, 36827, 24314, 35758]\<close> is U+6539 U+8FDB U+5EFA U+8BAE, "improvement suggestion";
  \<^item> \<open>[26410, 30693, 38382, 39064]\<close> is U+672A U+77E5 U+95EE U+9898, "unknown problem";
  \<^item> \<open>[23457, 26597, 21453, 39304]\<close> is U+5BA1 U+67E5 U+53CD U+9988, "review feedback";
  \<^item> \<open>[35299, 26512, 23457, 26597, 32467, 26524, 26102, 20986, 38169]\<close> is U+89E3 U+6790 U+5BA1 U+67E5 U+7ED3 U+679C U+65F6 U+51FA U+9519, "error while parsing the review result";
  \<^item> \<open>[24635, 20307, 35780, 20215]\<close> is U+603B U+4F53 U+8BC4 U+4EF7, "overall assessment";
  \<^item> \<open>[24635, 32467]\<close> is U+603B U+7ED3, "summary";
  \<^item> \<open>[24635, 20307, 35780, 20272]\<close> is U+603B U+4F53 U+8BC4 U+4F30, "overall evaluation";
  \<^item> \<open>[24635, 35272]\<close> is U+603B U+89C8, "overview";
  \<^item> \<open>[65306]\<close> is U+FF1A, the full-width colon;
  \<^item> \<open>[36890, 29992]\<close> is U+901A U+7528, "general".
\<close>

subsection \<open>Character classes and \<open>trim\<close>\<close>

text \<open>
  \<open>\s\<close> and \<open>String.prototype.trim\<close> use the same set: the white space and line
  terminator code units of the language. \<open>\d\<close> is \<open>isDigit\<close>; \<open>.\<close> without the \<open>s\<close> flag is
  every code unit that is not a line terminator.
\<close>

definition isWhiteSpace :: "nat \<Rightarrow> bool" where
  "isWhiteSpace c =
     (c = 9 \<or> c = 10 \<or> c = 11 \<or> c = 12 \<or> c = 13 \<or> c = 32 \<or> c = 160 \<or> c = 5760
      \<or> (8192 \<le> c \<and> c \<le> 8202) \<or> c = 8232 \<or> c = 8233 \<or> c = 8239 \<or> c = 8287
      \<or> c = 12288 \<or> c = 65279)"

definition trim :: "jsstring \<Rightarrow> jsstring" where
  "trim s = rev (dropWhile isWhiteSpace (rev (dropWhile isWhiteSpace s)))"

definition anyUnit :: "nat \<Rightarrow> bool" where
  "anyUnit c = True"

definition notNewline :: "nat \<Rightarrow> bool" where
  "notNewline c = (c \<noteq> 10)"

definition notLineTerminator :: "nat \<Rightarrow> bool" where
  "notLineTerminator c = (\<not> isLineTerminator c)"

definition notHash :: "nat \<Rightarrow> bool" where
  "notHash c = (c \<noteq> 35)"

subsection \<open>Regular expressions as backtracking matchers\<close>

text \<open>
  Each regular expression of the parser is written out as the backtracking matcher that
  the language defines for it. A matcher works on the text from the current position on
  and ends by calling its continuation with the rest of the text; \<open>None\<close> is failure,
  which makes the matcher before it try its next alternative. None of the expressions
  looks behind the current position, so the text before it is not needed.

  \<^item> \<open>lit l\<close> matches the literal \<open>l\<close>; \<open>litCI\<close> does so under the \<open>i\<close> flag, where two
    code units match when their canonical forms (upper case for the ASCII letters) agree;
  \<^item> \<open>alt\<close> is \<open>|\<close>: the left alternative first;
  \<open>greedyStar\<close> is \<open>X*\<close> for a character class \<open>X\<close>: the longest run first, then
    shorter ones; \<open>lazyStar\<close> is \<open>X*?\<close>: the shortest run first. Both hand the run
    (the captured text) and the rest to the continuation; \<open>greedyPlus\<close> and \<open>lazyPlus\<close> ask
    for one character at least;
  \<^item> \<open>search\<close> is the unanchored match: the leftmost position at which the matcher
    succeeds, with the text before it.
\<close>

definition lit :: "jsstring \<Rightarrow> (jsstring \<Rightarrow> 'a option) \<Rightarrow> jsstring \<Rightarrow> 'a option" where
  "lit l k s = (if startsWith s l then k (drop (length l) s) else None)"

definition canon :: "nat \<Rightarrow> nat" where
  "canon c = (if 97 \<le> c \<and> c \<le> 122 then c - 32 else c)"

definition litCI :: "jsstring \<Rightarrow> (jsstring \<Rightarrow> 'a option) \<Rightarrow> jsstring \<Rightarrow> 'a option" where
  "litCI l k s =
     (if map canon (take (length l) s) = map canon l then k (drop (length l) s) else None)"

definition alt :: "(jsstring \<Rightarrow> 'a option) \<Rightarrow> (jsstring \<Rightarrow> 'a option) \<Rightarrow> jsstring \<Rightarrow> 'a option" where
  "alt m1 m2 s = (case m1 s of Some r \<Rightarrow> Some r | None \<Rightarrow> m2 s)"

fun greedyStar ::
  "(nat \<Rightarrow> bool) \<Rightarrow> (jsstring \<Rightarrow> jsstring \<Rightarrow> 'a option) \<Rightarrow> jsstring \<Rightarrow> jsstring \<Rightarrow> 'a option" where
  "greedyStar P k acc [] = k acc []"
| "greedyStar P k acc (c # cs) =
     (if P c
      then (case greedyStar P k (acc @ [c]) cs of Some r \<Rightarrow> Some r | None \<Rightarrow> k acc (c # cs))
      else k acc (c # cs))"

fun lazyStar ::
  "(nat \<Rightarrow> bool) \<Rightarrow> (jsstring \<Rightarrow> jsstring \<Rightarrow> 'a option) \<Rightarrow> jsstring \<Rightarrow> jsstring \<Rightarrow> 'a option" where
  "lazyStar P k acc [] = k acc []"
| "lazyStar P k acc (c # cs) =
     (case k acc (c # cs) of
        Some r \<Rightarrow> Some r
      | None \<Rightarrow> if P c then lazyStar P k (acc @ [c]) cs else None)"

definition star :: "(nat \<Rightarrow> bool) \<Rightarrow> (jsstring \<Rightarrow> jsstring \<Rightarrow> 'a option) \<Rightarrow> jsstring \<Rightarrow> 'a option" where
  "star P k s = greedyStar P k [] s"

definition greedyPlus :: "(nat \<Rightarrow> bool) \<Rightarrow> (jsstring \<Rightarrow> jsstring \<Rightarrow> 'a option) \<Rightarrow> jsstring \<Rightarrow> 'a option" where
  "greedyPlus P k s = (case s of [] \<Rightarrow> None | c # cs \<Rightarrow> if P c then greedyStar P k [c] cs else None)"

definition lazy :: "(nat \<Rightarrow> bool) \<Rightarrow> (jsstring \<Rightarrow> jsstring \<Rightarrow> 'a option) \<Rightarrow> jsstring \<Rightarrow> 'a option" where
  "lazy P k s = lazyStar P k [] s"

definition lazyPlus :: "(nat \<Rightarrow> bool) \<Rightarrow> (jsstring \<Rightarrow> jsstring \<Rightarrow> 'a option) \<Rightarrow> jsstring \<Rightarrow> 'a option" where
  "lazyPlus P k s = (case s of [] \<Rightarrow> None | c # cs \<Rightarrow> if P c then lazyStar P k [c] cs else None)"

fun search :: "(jsstring \<Rightarrow> 'a option) \<Rightarrow> jsstring \<Rightarrow> jsstring \<Rightarrow> (jsstring \<times> 'a) option" where
  "search m pre [] = (case m [] of Some r \<Rightarrow> Some (pre, r) | None \<Rightarrow> None)"
| "search m pre (c # cs) =
     (case m (c # cs) of Some r \<Rightarrow> Some (pre, r) | None \<Rightarrow> search m (pre @ [c]) cs)"

text \<open>\<open>re.test(s)\<close> for an expression that is an alternation of literals under \<open>i\<close>.\<close>

definition testAnyCI :: "jsstring list \<Rightarrow> jsstring \<Rightarrow> bool" where
  "testAnyCI words s =
     (case search (foldr (\<lambda>w m. alt (litCI w (\<lambda>rest. Some ())) m) words (\<lambda>s. None)) [] s of
        None \<Rightarrow> False | Some r \<Rightarrow> True)"

subsection \<open>Strategy 1: the fenced JSON block\<close>

text \<open>
  \<open>/```json\n([\s\S]*?)\n```/\<close> and \<open>/```([\s\S]*?)```/\<close>; the result is capture 1.
\<close>

definition fenceJson :: "jsstring \<Rightarrow> jsstring option" where
  "fenceJson = lit (asc ''```json'' @ [10]) (lazy anyUnit (\<lambda>cap. lit ([10] @ asc ''```'') (\<lambda>rest. Some cap)))"

definition fenceAny :: "jsstring \<Rightarrow> jsstring option" where
  "fenceAny = lit (asc ''```'') (lazy anyUnit (\<lambda>cap. lit (asc ''```'') (\<lambda>rest. Some cap)))"

text \<open>
  \<open>jsonMatch\<close>: the first expression's match or else the second's; \<open>None\<close> is \<open>null\<close>,
  \<open>Some cap\<close> a match whose first capture is \<open>cap\<close>.
\<close>

definition jsonMatch :: "jsstring \<Rightarrow> jsstring option" where
  "jsonMatch content =
     (case search fenceJson [] content of
        Some (pre, cap) \<Rightarrow> Some cap
      | None \<Rightarrow> (case search fenceAny [] content of Some (pre, cap) \<Rightarrow> Some cap | None \<Rightarrow> None))"

text \<open>
  The inner \<open>try\<close>: \<open>Some\<close> is the \<open>return\<close> of the accepted result. An exception of
  \<open>JSON.parse\<close> or of reading a property of \<open>null\<close> is caught by the inner \<open>catch\<close>, which
  logs a warning; control then goes on to the text strategies, as it does when the
  parsed value has no array \<open>issues\<close>.
\<close>

definition strategy1 :: "JSON_parser \<Rightarrow> jsstring \<Rightarrow> jsstring \<Rightarrow> RawResult option" where
  "strategy1 JSON_parse content filePath =
     (case jsonMatch content of
        None \<Rightarrow> None
      | Some cap \<Rightarrow>
          if cap = [] then None
          else
            (case bindE (JSON_parse cap) (\<lambda>parsed.
                    bindE (getProp parsed (asc ''issues'')) (\<lambda>parsedIssues.
                      case parsedIssues of
                        JArray xs \<Rightarrow>
                          bindE (getProp parsed (asc ''summary'')) (\<lambda>parsedSummary.
                            Inr (Some \<lparr>file_name = filePath, issues = xs,
                                        summary = (if truthy parsedSummary then parsedSummary
                                                   else JStr [])\<rparr>))
                      | _ \<Rightarrow> Inr None)) of
               Inl e \<Rightarrow> None
             | Inr r \<Rightarrow> r))"

subsection \<open>Strategy 2: sections of markdown\<close>

text \<open>
  \<open>content.split(/###\s+/)\<close>: the separator is tried at each position from left to
  right; where it matches, the piece collected so far ends and the next one begins
  after the match. The separator never matches the empty string, so the rest after a
  match is always shorter (lemma \<open>sectionSeparator_shorter\<close>) and the guard of the
  recursive call always holds.
\<close>

definition sectionSeparator :: "jsstring \<Rightarrow> jsstring option" where
  "sectionSeparator = lit (asc ''###'') (greedyPlus isWhiteSpace (\<lambda>ws rest. Some rest))"

fun splitSections :: "jsstring \<Rightarrow> jsstring \<Rightarrow> jsstring list" where
  "splitSections piece [] = [piece]"
| "splitSections piece (c # cs) =
     (case sectionSeparator (c # cs) of
        None \<Rightarrow> splitSections (piece @ [c]) cs
      | Some rest \<Rightarrow>
          piece # (if length rest \<le> length cs then splitSections [] rest else []))"

text \<open>
  \<open>/####\s+(.+?):(.+?)(?=####|$)/gs\<close> at one position: the result is the rest of the text
  after the match. With the \<open>s\<close> flag \<open>.\<close> is every code unit.
\<close>

definition problemHere :: "jsstring \<Rightarrow> jsstring option" where
  "problemHere =
     lit (asc ''####'') (greedyPlus isWhiteSpace (\<lambda>ws.
       lazyPlus anyUnit (\<lambda>g1. lit [58] (
         lazyPlus anyUnit (\<lambda>g2 rest.
           if startsWith rest (asc ''####'') \<or> rest = [] then Some rest else None)))))"

text \<open>
  \<open>section.match(...)\<close> with the \<open>g\<close> flag: the matched texts, from left to right, each
  search starting where the match before ended (\<open>[]\<close> stands for \<open>null\<close>, which the code
  treats in the same way). A match is never empty.
\<close>

fun problemMatches :: "jsstring \<Rightarrow> jsstring list" where
  "problemMatches s =
     (case search problemHere [] s of
        None \<Rightarrow> []
      | Some (pre, rest) \<Rightarrow>
          take (length s - length pre - length rest) (drop (length pre) s)
          # (if length rest < length s then problemMatches rest else []))"

text \<open>\<open>/####\s+\u7b2c(\d+)\u884c:/\<close>, capture 1.\<close>

definition lineHere :: "jsstring \<Rightarrow> jsstring option" where
  "lineHere =
     lit (asc ''####'') (greedyPlus isWhiteSpace (\<lambda>ws.
       lit [31532] (greedyPlus isDigit (\<lambda>digits. lit [34892, 58] (\<lambda>rest. Some digits)))))"

text \<open>\<open>/####\s+(?:\u7b2c\d+\u884c|\u6574\u4f53):\s*(.+)(?:\n|$)/\<close>, capture 1.\<close>

definition messageTail :: "jsstring \<Rightarrow> jsstring option" where
  "messageTail =
     lit [58] (star isWhiteSpace (\<lambda>ws.
       greedyPlus notLineTerminator (\<lambda>cap rest.
         if startsWith rest [10] \<or> rest = [] then Some cap else None)))"

definition messageHere :: "jsstring \<Rightarrow> jsstring option" where
  "messageHere =
     lit (asc ''####'') (greedyPlus isWhiteSpace (\<lambda>ws.
       alt (lit [31532] (greedyPlus isDigit (\<lambda>digits. lit [34892] messageTail)))
           (lit [25972, 20307] messageTail)))"

text \<open>\<open>/\*\*\ud83d\udca1 \u6539\u8fdb\u5efa\u8bae:\*\*\n([\s\S]*?)(?=\*\*|$)/\<close>, capture 1.\<close>

definition suggestionHere :: "jsstring \<Rightarrow> jsstring option" where
  "suggestionHere =
     lit (asc ''**'' @ [55357, 56481, 32, 25913, 36827, 24314, 35758] @ asc '':**'' @ [10]) (lazy anyUnit (\<lambda>cap rest.
       if startsWith rest (asc ''**'') \<or> rest = [] then Some cap else None))"

text \<open>\<open>/```\n([\s\S]*?)\n```/\<close>, capture 1.\<close>

definition codeHere :: "jsstring \<Rightarrow> jsstring option" where
  "codeHere = lit (asc ''```'' @ [10]) (lazy anyUnit (\<lambda>cap. lit ([10] @ asc ''```'') (\<lambda>rest. Some cap)))"

definition firstCapture :: "(jsstring \<Rightarrow> jsstring option) \<Rightarrow> jsstring \<Rightarrow> jsstring option" where
  "firstCapture m s = (case search m [] s of None \<Rightarrow> None | Some (pre, cap) \<Rightarrow> Some cap)"

text \<open>
  \<open>Number.parseInt(digits, 10)\<close> for a non-empty run of decimal digits is the number
  they denote (\<open>digitsValue\<close>; exact here, a binary64 number in the language).
\<close>

definition problemIssue :: "jsstring \<Rightarrow> jsstring \<Rightarrow> jsval" where
  "problemIssue sev problemMatch =
     JObject
       [((asc ''line''), case firstCapture lineHere problemMatch of
                     None \<Rightarrow> JUndefined
                   | Some digits \<Rightarrow> JNum (Finite (of_nat (digitsValue digits)))),
        ((asc ''severity''), JStr sev),
        ((asc ''message''), case firstCapture messageHere problemMatch of
                        None \<Rightarrow> JStr [26410, 30693, 38382, 39064]
                      | Some m \<Rightarrow> JStr (trim m)),
        ((asc ''suggestion''), case firstCapture suggestionHere problemMatch of
                           None \<Rightarrow> JUndefined
                         | Some s \<Rightarrow> JStr (trim s)),
        ((asc ''code''), case firstCapture codeHere problemMatch of
                     None \<Rightarrow> JUndefined
                   | Some c \<Rightarrow> JStr c)]"

text \<open>The body of the loop over the sections: the issues that one section adds.\<close>

definition sectionIssues :: "jsstring \<Rightarrow> jsval list" where
  "sectionIssues section =
     (if \<not> testAnyCI [[55357, 56628], [55357, 57312], [55357, 56629], [20005, 37325, 38382, 39064], [35686, 21578], [24314, 35758], (asc ''error''), (asc ''warning''), (asc ''info'')]
              section
      then []
      else
        (let sev = (if testAnyCI [[55357, 56628], [20005, 37325, 38382, 39064], (asc ''error'')] section then (asc ''error'')
                    else if testAnyCI [[55357, 57312], [35686, 21578], (asc ''warning'')] section then (asc ''warning'')
                    else (asc ''info''))
         in map (problemIssue sev) (problemMatches section)))"

definition problemSections :: "jsstring \<Rightarrow> jsstring list" where
  "problemSections content = filter (\<lambda>s. s \<noteq> []) (splitSections [] content)"

definition strategy2 :: "jsstring \<Rightarrow> jsval list" where
  "strategy2 content = concat (map sectionIssues (problemSections content))"

subsection \<open>Strategy 3: the loose scan\<close>

text \<open>
  \<open>/(\d+)?\s*[:\uff1a]\s*(?:\[(error|warning|info)\]\s*)?([^\n]+)/g\<close> at one position: the
  captures 1, 2 and 3 (\<open>None\<close> for a group that took no part) and the rest of the text.
\<close>

definition looseTail ::
  "jsstring option \<Rightarrow> jsstring option \<Rightarrow> jsstring
     \<Rightarrow> (jsstring option \<times> jsstring option \<times> jsstring \<times> jsstring) option" where
  "looseTail g1 g2 = greedyPlus notNewline (\<lambda>g3 rest. Some (g1, g2, g3, rest))"

definition looseSeverity ::
  "jsstring option \<Rightarrow> jsstring
     \<Rightarrow> (jsstring option \<times> jsstring option \<times> jsstring \<times> jsstring) option" where
  "looseSeverity g1 =
     alt (lit [91] (
            alt (lit (asc ''error'') (lit [93] (star isWhiteSpace (\<lambda>ws. looseTail g1 (Some (asc ''error''))))))
           (alt (lit (asc ''warning'') (lit [93] (star isWhiteSpace (\<lambda>ws. looseTail g1 (Some (asc ''warning''))))))
                (lit (asc ''info'') (lit [93] (star isWhiteSpace (\<lambda>ws. looseTail g1 (Some (asc ''info'')))))))))
         (looseTail g1 None)"

definition looseColon ::
  "jsstring option \<Rightarrow> jsstring
     \<Rightarrow> (jsstring option \<times> jsstring option \<times> jsstring \<times> jsstring) option" where
  "looseColon g1 =
     star isWhiteSpace (\<lambda>ws.
       alt (lit [58] (star isWhiteSpace (\<lambda>ws'. looseSeverity g1)))
           (lit [65306] (star isWhiteSpace (\<lambda>ws'. looseSeverity g1))))"

definition looseHere ::
  "jsstring \<Rightarrow> (jsstring option \<times> jsstring option \<times> jsstring \<times> jsstring) option" where
  "looseHere = alt (greedyPlus isDigit (\<lambda>digits. looseColon (Some digits))) (looseColon None)"

definition looseIssue :: "jsstring option \<Rightarrow> jsstring option \<Rightarrow> jsstring \<Rightarrow> jsval" where
  "looseIssue g1 g2 g3 =
     JObject
       [((asc ''line''), case g1 of None \<Rightarrow> JUndefined
                   | Some digits \<Rightarrow> JNum (Finite (of_nat (digitsValue digits)))),
        ((asc ''severity''), case g2 of None \<Rightarrow> JStr (asc ''info'') | Some sev \<Rightarrow> JStr sev),
        ((asc ''message''), JStr (trim g3))]"

text \<open>
  The \<open>while\<close> loop over \<open>problemRegex.exec(content)\<close>: each search starts where the
  match before ended. A match holds a colon and a character after it, so the rest is
  always shorter (lemma \<open>looseHere_shorter\<close>) and the guard always holds.
\<close>

fun strategy3 :: "jsstring \<Rightarrow> jsval list" where
  "strategy3 s =
     (case search looseHere [] s of
        None \<Rightarrow> []
      | Some (pre, g1, g2, g3, rest) \<Rightarrow>
          looseIssue g1 g2 g3 # (if length rest < length s then strategy3 rest else []))"

subsection \<open>\<open>extractSummary\<close>\<close>

text \<open>\<open>/##\s*\ud83d\udcdd\s*\u603b\u4f53\u8bc4\u4ef7\s*\n([^#]+)/\<close>, capture 1.\<close>

definition overallHere :: "jsstring \<Rightarrow> jsstring option" where
  "overallHere =
     lit (asc ''##'') (star isWhiteSpace (\<lambda>w1.
       lit [55357, 56541] (star isWhiteSpace (\<lambda>w2.
         lit [24635, 20307, 35780, 20215] (star isWhiteSpace (\<lambda>w3.
           lit [10] (greedyPlus notHash (\<lambda>cap rest. Some cap))))))))"

text \<open>
  \<open>/(?:\u603b\u7ed3|\u603b\u4f53\u8bc4\u4ef7|\u603b\u4f53\u8bc4\u4f30|\u603b\u89c8|Summary)[:\uff1a]\s*([^\n]+)(?:\n\n|$)/i\<close>, capture 1.
\<close>

definition summaryTail :: "jsstring \<Rightarrow> jsstring option" where
  "summaryTail =
     (\<lambda>s. let body = star isWhiteSpace (\<lambda>ws.
                  greedyPlus notNewline (\<lambda>cap rest.
                    if startsWith rest [10, 10] \<or> rest = [] then Some cap else None))
          in alt (lit [58] body) (lit [65306] body) s)"

definition summaryHere :: "jsstring \<Rightarrow> jsstring option" where
  "summaryHere =
     alt (litCI [24635, 32467] summaryTail)
    (alt (litCI [24635, 20307, 35780, 20215] summaryTail)
    (alt (litCI [24635, 20307, 35780, 20272] summaryTail)
    (alt (litCI [24635, 35272] summaryTail)
         (litCI (asc ''Summary'') summaryTail))))"

text \<open>\<open>s.split('\n\n')\<close>.\<close>

fun splitParagraphs :: "jsstring \<Rightarrow> jsstring \<Rightarrow> jsstring list" where
  "splitParagraphs piece [] = [piece]"
| "splitParagraphs piece [c] = [piece @ [c]]"
| "splitParagraphs piece (c # d # r) =
     (if c = 10 \<and> d = 10 then piece # splitParagraphs [] r
      else splitParagraphs (piece @ [c]) (d # r))"

definition extractSummary :: "jsstring \<Rightarrow> jsstring" where
  "extractSummary content =
     (case firstCapture overallHere content of
        Some cap \<Rightarrow> trim cap
      | None \<Rightarrow>
          (case firstCapture summaryHere content of
             Some cap \<Rightarrow> trim cap
           | None \<Rightarrow>
               (let paragraphs = splitParagraphs [] content;
                    firstParagraph = hd paragraphs
                in if firstParagraph \<noteq> [] \<and> length firstParagraph < 200
                   then trim firstParagraph
                   else trim (last paragraphs))))"

subsection \<open>\<open>parseReviewResponse\<close>\<close>

text \<open>\<open>String(error)\<close> for an error object: its name and message.\<close>

definition String_error :: "js_error \<Rightarrow> jsstring" where
  "String_error e =
     (case e of JsError name msg \<Rightarrow>
        if msg = [] then name else if name = [] then msg else name @ (asc '': '') @ msg)"

text \<open>The degenerate issue of Strategy 4 and the result of the outer \<open>catch\<close> block.\<close>

definition feedbackIssue :: "jsstring \<Rightarrow> jsval" where
  "feedbackIssue content =
     JObject [((asc ''severity''), JStr (asc ''info'')), ((asc ''message''), JStr [23457, 26597, 21453, 39304]),
              ((asc ''suggestion''), JStr (trim content))]"

definition errorResult :: "jsstring \<Rightarrow> js_error \<Rightarrow> RawResult" where
  "errorResult filePath e =
     \<lparr>file_name = filePath,
      issues = [JObject [((asc ''severity''), JStr (asc ''error'')), ((asc ''message''), JStr [35299, 26512, 23457, 26597, 32467, 26524, 26102, 20986, 38169]),
                         ((asc ''suggestion''), JStr (String_error e))]],
      summary = JStr [35299, 26512, 23457, 26597, 32467, 26524, 26102, 20986, 38169]\<rparr>"

text \<open>
  The issues of the text strategies: Strategy 2; Strategy 3 if that found nothing;
  Strategy 4 if that found nothing either and the text is not blank.
\<close>

definition textIssues :: "jsstring \<Rightarrow> jsval list" where
  "textIssues content =
     (let issues2 = strategy2 content;
          issues3 = (if length issues2 = 0 then strategy3 content else issues2)
      in if length issues3 = 0 \<and> trim content \<noteq> [] then [feedbackIssue content]
         else issues3)"

text \<open>
  The body of the outer \<open>try\<close>. Its outcome is a sum, \<open>Inl\<close> for an exception that would
  reach the outer \<open>catch\<close>; the exceptions of Strategy 1 are caught inside it and no
  later step throws.
\<close>

definition parseBody :: "JSON_parser \<Rightarrow> jsstring \<Rightarrow> jsstring \<Rightarrow> js_error + RawResult" where
  "parseBody JSON_parse content filePath =
     (case strategy1 JSON_parse content filePath of
        Some accepted \<Rightarrow> Inr accepted
      | None \<Rightarrow>
          Inr \<lparr>file_name = filePath, issues = textIssues content,
               summary = JStr (extractSummary content)\<rparr>)"

definition parseReviewResponse :: "JSON_parser \<Rightarrow> jsstring \<Rightarrow> jsstring \<Rightarrow> RawResult" where
  "parseReviewResponse JSON_parse content filePath =
     (case parseBody JSON_parse content filePath of
        Inl e \<Rightarrow> errorResult filePath e
      | Inr result \<Rightarrow> result)"

subsection \<open>Notions for the proofs\<close>

text \<open>
  While a piece is collected, the separator has matched at none of its positions, in
  the text that the piece and the rest make up.
\<close>

definition noSeparatorIn :: "jsstring \<Rightarrow> jsstring \<Rightarrow> bool" where
  "noSeparatorIn piece s = (\<forall>j<length piece. sectionSeparator (drop j (piece @ s)) = None)"

text \<open>What capture 2 of the loose expression can be.\<close>

definition severityWord :: "jsstring option \<Rightarrow> bool" where
  "severityWord g = (g = None \<or> g = Some (asc ''error'') \<or> g = Some (asc ''warning'') \<or> g = Some (asc ''info''))"

subsection \<open>Well-formed issues\<close>

text \<open>
  An issue has a valid severity when its \<open>severity\<close> property is one of the three
  strings; it conforms to the issue schema when, besides, its message is a string, its
  line is absent or a number, and its suggestion and code are absent or strings.
\<close>

definition validSeverity :: "jsval \<Rightarrow> bool" where
  "validSeverity i =
     (case getProp i (asc ''severity'') of
        Inr (JStr s) \<Rightarrow> s = (asc ''info'') \<or> s = (asc ''warning'') \<or> s = (asc ''error'')
      | _ \<Rightarrow> False)"

definition optionalString :: "jsval \<Rightarrow> bool" where
  "optionalString v = (case v of JUndefined \<Rightarrow> True | JStr s \<Rightarrow> True | _ \<Rightarrow> False)"

definition optionalNumber :: "jsval \<Rightarrow> bool" where
  "optionalNumber v = (case v of JUndefined \<Rightarrow> True | JNum n \<Rightarrow> True | _ \<Rightarrow> False)"

definition conformsIssue :: "jsval \<Rightarrow> bool" where
  "conformsIssue i =
     (case i of
        JObject kvs \<Rightarrow>
          validSeverity i
          \<and> (case map_of kvs (asc ''message'') of Some (JStr m) \<Rightarrow> True | _ \<Rightarrow> False)
          \<and> (case map_of kvs (asc ''line'') of None \<Rightarrow> True | Some v \<Rightarrow> optionalNumber v)
          \<and> (case map_of kvs (asc ''suggestion'') of None \<Rightarrow> True | Some v \<Rightarrow> optionalString v)
          \<and> (case map_of kvs (asc ''code'') of None \<Rightarrow> True | Some v \<Rightarrow> optionalString v)
      | _ \<Rightarrow> False)"

subsection \<open>Example responses\<close>

text \<open>The \<open>json\<close>-labelled fence around a body.\<close>

definition fenced :: "jsstring \<Rightarrow> jsstring" where
  "fenced body = (asc ''```json'' @ [10]) @ body @ ([10] @ asc ''```'')"

text \<open>A body whose issue has a severity outside the three values.\<close>

definition criticalBody :: jsstring where
  \<open>criticalBody = (asc ''{"issues":[{"severity":"critical","message":"m"}]}'')\<close>

definition criticalResponse :: jsstring where
  "criticalResponse = fenced criticalBody"

text \<open>A body with issues, a summary and a \<open>file\<close> field.\<close>

definition jsonBody :: jsstring where
  \<open>jsonBody =
     (asc ''{"file":"b.ts","summary":"ok","issues":[{"severity":"error",''
      @ asc ''"line":3,"message":"m"}]}'')\<close>

definition jsonResponse :: jsstring where
  "jsonResponse = fenced jsonBody"

text \<open>A body with an empty issue list; one whose summary is \<open>false\<close>.\<close>

definition emptyIssuesBody :: jsstring where
  \<open>emptyIssuesBody = (asc ''{"issues":[]}'')\<close>

definition noIssues :: jsstring where
  "noIssues = fenced emptyIssuesBody"

definition falseSummaryBody :: jsstring where
  \<open>falseSummaryBody = (asc ''{"issues":[],"summary":false}'')\<close>

definition falseSummary :: jsstring where
  "falseSummary = fenced falseSummaryBody"

text \<open>Two fenced blocks: the first holds the number 1, the second an empty issue list.\<close>

definition twoBlocks :: jsstring where
  "twoBlocks = fenced [49] @ [10] @ fenced emptyIssuesBody"

text \<open>A red-circle section with a level-4 header for line 12.\<close>

definition sectionResponse :: jsstring where
  "sectionResponse = (asc ''### '' @ [55357, 56628, 32, 20005, 37325, 38382, 39064, 10] @ asc ''#### ''
      @ [31532] @ asc ''12'' @ [34892] @ asc '': message text'')"

text \<open>Lines for the loose scan; plain text.\<close>

definition looseResponse :: jsstring where
  "looseResponse = (asc ''12: [warning] unused'' @ [10] @ asc ''Summary: fine'')"

definition plainResponse :: jsstring where
  "plainResponse = (asc ''  Looks good to me  '')"

section \<open>Properties of the diff filter\<close>

lemma bindE_simps [simp]: "bindE (Inl e) f = Inl e" "bindE (Inr x) f = f x"
  by (simp_all add: bindE_def)

lemma regexSource_eq_spec: "regexSource pattern = spec_regexSource pattern"
proof -
  have "expandStars (escapeDots p) =
        concat (map (\<lambda>c. if c = 46 then [92, 46] else if c = 42 then [46, 42] else [c]) p)" for p
    by (induction p) (simp_all add: expandStars_def escapeDots_def)
  then show ?thesis
    by (simp add: regexSource_def spec_regexSource_def)
qed

lemma matchPattern_spec_match: "matchPattern R path p = spec_match R path p"
  by (simp add: matchPattern_def spec_match_def regexSource_eq_spec bindE_def)

lemma some_e_find:
  "some_e (matchPattern R path) ps =
     (case find (\<lambda>p. spec_match R path p \<noteq> Inr False) ps of
        None \<Rightarrow> Inr False
      | Some p \<Rightarrow> spec_match R path p)"
proof (induction ps)
  case Nil
  show ?case by simp
next
  case (Cons p ps)
  show ?case
  proof (cases "spec_match R path p")
    case (Inl e)
    then show ?thesis by (simp add: matchPattern_spec_match)
  next
    case (Inr b)
    with Cons show ?thesis by (cases b) (simp_all add: matchPattern_spec_match)
  qed
qed

lemma matchPatterns_anyMatch:
  "matchPatterns R path ps = spec_anyMatch R path (Some ps)"
  by (simp add: matchPatterns_def spec_anyMatch_def some_e_find)

lemma keepDiff_decision:
  "keepDiff R cfg d =
     (case spec_decision R cfg (newPath d) of
        Included \<Rightarrow> Inr True
      | Excluded n \<Rightarrow> Inr False
      | Throws e \<Rightarrow> Inl e)"
proof -
  have none: "spec_anyMatch R path None = Inr False" for path
    by (simp add: spec_anyMatch_def)
  show ?thesis
    by (auto simp add: keepDiff_def spec_decision_def matchPatterns_anyMatch none Let_def
        split: option.split sum.split)
qed

lemma filter_e_decision:
  assumes "\<And>x. f x = (case dec x of Included \<Rightarrow> Inr True | Excluded n \<Rightarrow> Inr False
                       | Throws e \<Rightarrow> Inl e)"
  shows "filter_e f xs =
     (case List.map_filter (\<lambda>x. thrown (dec x)) xs of
        [] \<Rightarrow> Inr (filter (\<lambda>x. dec x = Included) xs)
      | e # es \<Rightarrow> Inl e)"
proof (induction xs)
  case Nil
  show ?case by (simp add: List.map_filter_simps)
next
  case (Cons x xs)
  then show ?case
    by (cases "dec x")
       (simp_all add: assms List.map_filter_simps thrown_def split: list.split)
qed

lemma spec_anyMatch_ok:
  assumes "\<forall>p\<in>set ps. patternOk R p"
  shows "\<exists>b. spec_anyMatch R path (Some ps) = Inr b"
proof -
  have m: "\<exists>b. spec_match R path p = Inr b" if "p \<in> set ps" for p
    using assms that
    by (auto simp: spec_match_def patternOk_def regexSource_eq_spec split: sum.splits)
  show ?thesis
  proof (cases "find (\<lambda>p. spec_match R path p \<noteq> Inr False) ps")
    case None
    then have "spec_anyMatch R path (Some ps) = Inr False"
      by (simp add: spec_anyMatch_def)
    then show ?thesis by blast
  next
    case (Some p)
    then have "p \<in> set ps" by (auto simp: find_Some_iff)
    with m obtain b where "spec_match R path p = Inr b" by blast
    with Some have "spec_anyMatch R path (Some ps) = Inr b"
      by (simp add: spec_anyMatch_def)
    then show ?thesis by blast
  qed
qed

lemma spec_decision_ok:
  assumes "\<forall>p\<in>set (patternsOf cfg). patternOk R p"
  shows "thrown (spec_decision R cfg path) = None"
proof -
  have none: "spec_anyMatch R path None = Inr False"
    by (simp add: spec_anyMatch_def)
  have 1: "\<exists>b. spec_anyMatch R path (ignoreFiles cfg) = Inr b"
  proof (cases "ignoreFiles cfg")
    case None
    with none show ?thesis by auto
  next
    case (Some ps)
    with assms have "\<forall>p\<in>set ps. patternOk R p"
      by (simp add: patternsOf_def)
    with Some show ?thesis by (simp add: spec_anyMatch_ok)
  qed
  have 3: "\<exists>b. spec_anyMatch R path (includePatterns cfg) = Inr b"
  proof (cases "includePatterns cfg")
    case None
    with none show ?thesis by auto
  next
    case (Some ps)
    with assms have "\<forall>p\<in>set ps. patternOk R p"
      by (simp add: patternsOf_def)
    with Some show ?thesis by (simp add: spec_anyMatch_ok)
  qed
  have 4: "\<exists>b. spec_anyMatch R path (excludePatterns cfg) = Inr b"
  proof (cases "excludePatterns cfg")
    case None
    with none show ?thesis by auto
  next
    case (Some ps)
    with assms have "\<forall>p\<in>set ps. patternOk R p"
      by (simp add: patternsOf_def)
    with Some show ?thesis by (simp add: spec_anyMatch_ok)
  qed
  from 1 3 4 show ?thesis
    by (auto simp: spec_decision_def thrown_def split: option.split)
qed

text \<open>
  C3 (as amended). For every list of diffs and every filter configuration, the filter
  decides each path by the fixed priority, trying the rules in their order and each
  pattern list from left to right, and handing a wildcard pattern to the
  regular-expression constructor only when it is reached: an ignoreFiles match excludes;
  else an ignorePaths prefix excludes; else a non-empty includePatterns that the path does
  not match excludes; else an excludePatterns match excludes; otherwise the path is
  included. When the constructor rejects a pattern that is reached, the filter throws that
  exception instead of deciding, for the first diff of the list at which this happens; a
  rejected pattern that stands behind the pattern or the rule that decides is never
  reached. So a path that an ignore-file pattern matches, no rejected ignore-file pattern
  before it, is excluded whatever the include and exclude patterns are; and when the
  constructor accepts every wildcard pattern of the configuration, the filter throws
  nothing and keeps exactly the diffs that the five rules include.
\<close>

theorem filterDiffs_priority:
  "filterDiffs R cfg diffList = spec_filter R cfg diffList
   \<and> keepDiff R cfg d =
       (case spec_decision R cfg (newPath d) of
          Included \<Rightarrow> Inr True
        | Excluded n \<Rightarrow> Inr False
        | Throws e \<Rightarrow> Inl e)
   \<and> (spec_anyMatch R (newPath d) (ignoreFiles cfg) = Inr True
        \<longrightarrow> spec_decision R cfg (newPath d) = Excluded 1 \<and> keepDiff R cfg d = Inr False)
   \<and> (list_all (patternOk R) (patternsOf cfg)
        \<longrightarrow> filterDiffs R cfg diffList
            = Inr (filter (\<lambda>d. spec_decision R cfg (newPath d) = Included) diffList))"
proof -
  have f: "filterDiffs R cfg diffList = spec_filter R cfg diffList"
    unfolding filterDiffs_def spec_filter_def
    by (rule filter_e_decision) (rule keepDiff_decision)
  have k: "keepDiff R cfg d =
       (case spec_decision R cfg (newPath d) of
          Included \<Rightarrow> Inr True
        | Excluded n \<Rightarrow> Inr False
        | Throws e \<Rightarrow> Inl e)"
    by (rule keepDiff_decision)
  have i: "spec_decision R cfg (newPath d) = Excluded 1 \<and> keepDiff R cfg d = Inr False"
    if "spec_anyMatch R (newPath d) (ignoreFiles cfg) = Inr True"
    using that by (simp add: k spec_decision_def)
  have o: "filterDiffs R cfg diffList
            = Inr (filter (\<lambda>d. spec_decision R cfg (newPath d) = Included) diffList)"
    if "list_all (patternOk R) (patternsOf cfg)"
  proof -
    from that have "\<forall>p\<in>set (patternsOf cfg). patternOk R p"
      by (simp add: list_all_iff)
    then have "List.map_filter (\<lambda>d. thrown (spec_decision R cfg (newPath d))) diffList = []"
      by (simp add: List.map_filter_def spec_decision_ok)
    then show ?thesis
      by (simp add: f spec_filter_def)
  qed
  from f k i o show ?thesis by blast
qed

lemmas filter_eval =
  exampleDiffs_def exampleConfig_def rejectedExclude_def shadowedExclude_def diffOf_def
  spec_filter_def spec_decision_def spec_anyMatch_def spec_match_def thrown_def
  spec_regexSource_def RegExp_fragment_def unterminatedGroup_def isSyntaxChar_def
  isLineTerminator_def startsWith_def asc_def patternsOf_def patternOk_def regexSource_def
  escapeDots_def expandStars_def

text \<open>
  The example configuration keeps \<open>src/app.js\<close> alone: \<open>lib/a.min.js\<close> falls to rule 1
  (it matches an include pattern too), \<open>dist/x.js\<close> to rule 2, \<open>src/app.ts\<close> to rule 3 and
  \<open>src/app.test.js\<close> to rule 4. With the rejected pattern behind an ignore-file pattern
  that matches, rule 1 decides and nothing is thrown.
\<close>

theorem filterDiffs_priority_witness:
  "list_all (patternOk RegExp_fragment) (patternsOf exampleConfig)
   \<and> filterDiffs RegExp_fragment exampleConfig exampleDiffs = Inr [diffOf (asc ''src/app.js'')]
   \<and> map (\<lambda>d. spec_decision RegExp_fragment exampleConfig (newPath d)) exampleDiffs
       = [Excluded 1, Excluded 2, Included, Excluded 3, Excluded 4]
   \<and> spec_anyMatch RegExp_fragment (asc ''lib/a.min.js'') (includePatterns exampleConfig) = Inr True
   \<and> spec_anyMatch RegExp_fragment (asc ''a.js'') (ignoreFiles shadowedExclude) = Inr True
   \<and> keepDiff RegExp_fragment shadowedExclude (diffOf (asc ''a.js'')) = Inr False
   \<and> filterDiffs RegExp_fragment shadowedExclude [diffOf (asc ''a.js'')] = Inr []"
proof -
  have ok: "list_all (patternOk RegExp_fragment) (patternsOf exampleConfig)"
    by (simp add: filter_eval)
  have inc: "filter (\<lambda>d. spec_decision RegExp_fragment exampleConfig (newPath d) = Included)
               exampleDiffs = [diffOf (asc ''src/app.js'')]"
    by (simp add: filter_eval)
  have decs: "map (\<lambda>d. spec_decision RegExp_fragment exampleConfig (newPath d)) exampleDiffs
       = [Excluded 1, Excluded 2, Included, Excluded 3, Excluded 4]"
    by (simp add: filter_eval)
  have m3: "spec_anyMatch RegExp_fragment (asc ''lib/a.min.js'') (includePatterns exampleConfig)
            = Inr True"
    by (simp add: filter_eval)
  have m1: "spec_anyMatch RegExp_fragment (newPath (diffOf (asc ''a.js'')))
              (ignoreFiles shadowedExclude) = Inr True"
    by (simp add: filter_eval)
  have sf: "spec_filter RegExp_fragment shadowedExclude [diffOf (asc ''a.js'')] = Inr []"
    by (simp add: filter_eval)
  note h1 = filterDiffs_priority [of RegExp_fragment exampleConfig exampleDiffs
      "diffOf (asc ''lib/a.min.js'')"]
  note h2 = filterDiffs_priority [of RegExp_fragment shadowedExclude "[diffOf (asc ''a.js'')]"
      "diffOf (asc ''a.js'')"]
  from h1 ok
  have "filterDiffs RegExp_fragment exampleConfig exampleDiffs
        = Inr (filter (\<lambda>d. spec_decision RegExp_fragment exampleConfig (newPath d) = Included)
                 exampleDiffs)"
    by blast
  with inc
  have r: "filterDiffs RegExp_fragment exampleConfig exampleDiffs = Inr [diffOf (asc ''src/app.js'')]"
    by simp
  from h2 m1 have k: "keepDiff RegExp_fragment shadowedExclude (diffOf (asc ''a.js'')) = Inr False"
    by blast
  from h2 sf have e: "filterDiffs RegExp_fragment shadowedExclude [diffOf (asc ''a.js'')] = Inr []"
    by simp
  from m1 have m1': "spec_anyMatch RegExp_fragment (asc ''a.js'') (ignoreFiles shadowedExclude)
                     = Inr True"
    by (simp add: diffOf_def)
  from ok r decs m3 m1' k e show ?thesis by blast
qed

text \<open>
  The claim without the amendment fails on a configuration whose only pattern is the
  exclude pattern \<open>*(\<close>: no rule excludes the path \<open>a.js\<close>, so the five rules would
  include it, but the filter reaches the pattern, the constructor rejects its source
  \<open>^.*($\<close>, and the filter throws the SyntaxError instead of returning a list.
\<close>

theorem filterDiffs_priority_counterexample:
  "excludePatterns rejectedExclude = Some [asc ''*('']
   \<and> regexSource (asc ''*('') = asc ''^.*($''
   \<and> filterDiffs RegExp_fragment rejectedExclude [diffOf (asc ''a.js'')]
       = Inl (JsError (asc ''SyntaxError'')
                (asc ''Invalid regular expression: /^.*($/: Unterminated group''))"
  by (simp add: filter_eval filterDiffs_def keepDiff_def matchPatterns_def matchPattern_def)



section \<open>Properties of the prompt builder\<close>

lemma GetSubstitution_plain:
  "36 \<notin> set replaceValue \<Longrightarrow> GetSubstitution matched before after replaceValue = replaceValue"
  by (induction matched before after replaceValue rule: GetSubstitution.induct) auto

lemma replace_str_plain:
  "36 \<notin> set v \<Longrightarrow> replace_str s placeholder v = spec_substituteFirst s placeholder v"
  by (simp add: replace_str_def spec_substituteFirst_def GetSubstitution_plain split: option.splits)

text \<open>
  Where no inserted value contains a dollar sign, the custom review prompt is the
  template with the first occurrence of each placeholder replaced by its value.
\<close>

lemma buildReviewPrompt_plain:
  assumes "reviewPrompt config = Some template" and "template \<noteq> []"
    and "36 \<notin> set lang" and "36 \<notin> set (newPath diff)" and "36 \<notin> set (diffContent diff)"
  shows "buildReviewPrompt config diff lang = spec_customReviewPrompt template diff lang"
  using assms by (simp add: buildReviewPrompt_def spec_customReviewPrompt_def replace_str_plain)

text \<open>
  C8. For a custom template, \<open>buildReviewPrompt\<close> is claimed to put the corresponding value
  in place of the first occurrence of each placeholder. The code inserts the value through
  \<open>String.prototype.replace\<close> with a string replacement, which expands \<open>$$\<close>, \<open>$&\<close>, \<open>$`\<close>
  and \<open>$'\<close> in the value: for the diff \<open>+echo $$\<close> the prompt ends in \<open>+echo $\<close>, where the
  value itself, as the claim has it, would give \<open>+echo $$\<close>.
\<close>

theorem buildReviewPrompt_dollar:
  "buildReviewPrompt shellTemplate shellDiff (asc ''Shell'')
     = (asc ''Review run.sh (Shell): +echo $'')
   \<and> spec_customReviewPrompt (the (reviewPrompt shellTemplate)) shellDiff (asc ''Shell'')
     = (asc ''Review run.sh (Shell): +echo $$'')"
  by (simp add: buildReviewPrompt_def spec_customReviewPrompt_def shellTemplate_def shellDiff_def
      replace_str_def spec_substituteFirst_def startsWith_def asc_def)

lemma foldl_issuesCount:
  "foldl (\<lambda>sum result. sum + length (issues result)) a results
   = a + sum_list (map (\<lambda>r. length (issues r)) results)"
  by (induction results arbitrary: a) simp_all

lemma issuesCountOf_zero:
  "issuesCountOf results = 0 \<Longrightarrow> concat (map issues results) = []"
  by (simp add: issuesCountOf_def foldl_issuesCount)

lemma percentText_zero: "percentText fdiv100 0 0 = [48]"
  by (simp add: percentText_def divTimes100_def orZero_def Math_round_def String_num_def)

text \<open>
  C7. For every list of results whose total issue count is 0, every per-severity count and
  every per-severity percentage of the severity distribution is rendered as 0 (0/0 is
  \<open>NaN\<close>, which \<open>|| 0\<close> turns into 0 before rounding), and this text, free of \<open>NaN\<close>, is
  the distribution that \<open>buildSummaryPrompt\<close> puts into the prompt, built-in or custom.
\<close>

theorem buildSummaryPrompt_zero_total:
  assumes "issuesCountOf results = 0"
  shows "severityDistribution fdiv100 results
           = ([20005, 37325, 38382, 39064] @ asc '': 0'' @ [20010] @ asc '' (0%)''
      @ [10, 35686, 21578] @ asc '': 0'' @ [20010] @ asc '' (0%)'' @ [10, 20449, 24687]
      @ asc '': 0'' @ [20010] @ asc '' (0%)'')
         \<and> buildSummaryPrompt fdiv100 config results
           = summaryPromptText config (length results) 0
               (join [10, 10] (map renderResult results))
               ([20005, 37325, 38382, 39064] @ asc '': 0'' @ [20010] @ asc '' (0%)''
      @ [10, 35686, 21578] @ asc '': 0'' @ [20010] @ asc '' (0%)'' @ [10, 20449, 24687]
      @ asc '': 0'' @ [20010] @ asc '' (0%)'')"
proof -
  have none: "concat (map issues results) = []"
    using assms by (rule issuesCountOf_zero)
  have d: "severityDistribution fdiv100 results
           = ([20005, 37325, 38382, 39064] @ asc '': 0'' @ [20010] @ asc '' (0%)''
      @ [10, 35686, 21578] @ asc '': 0'' @ [20010] @ asc '' (0%)'' @ [10, 20449, 24687]
      @ asc '': 0'' @ [20010] @ asc '' (0%)'')"
    by (simp add: severityDistribution_def countSeverity_def percentText_zero asc_def assms none)
  show ?thesis
    by (simp add: d buildSummaryPrompt_def assms)
qed

theorem buildSummaryPrompt_zero_total_witness:
  "issuesCountOf cleanResults = 0
   \<and> severityDistribution exactDiv100 cleanResults
       = ([20005, 37325, 38382, 39064] @ asc '': 0'' @ [20010] @ asc '' (0%)''
      @ [10, 35686, 21578] @ asc '': 0'' @ [20010] @ asc '' (0%)'' @ [10, 20449, 24687]
      @ asc '': 0'' @ [20010] @ asc '' (0%)'')
   \<and> buildSummaryPrompt exactDiv100 distributionOnly cleanResults
       = (asc ''2 files. '' @ [20005, 37325, 38382, 39064] @ asc '': 0'' @ [20010]
      @ asc '' (0%)'' @ [10, 35686, 21578] @ asc '': 0'' @ [20010] @ asc '' (0%)''
      @ [10, 20449, 24687] @ asc '': 0'' @ [20010] @ asc '' (0%)'')"
proof -
  have z: "issuesCountOf cleanResults = 0"
    by (simp add: issuesCountOf_def cleanResults_def)
  have t: "summaryPromptText distributionOnly (length cleanResults) 0
             (join [10, 10] (map renderResult cleanResults))
             ([20005, 37325, 38382, 39064] @ asc '': 0'' @ [20010] @ asc '' (0%)''
      @ [10, 35686, 21578] @ asc '': 0'' @ [20010] @ asc '' (0%)'' @ [10, 20449, 24687]
      @ asc '': 0'' @ [20010] @ asc '' (0%)'')
           = (asc ''2 files. '' @ [20005, 37325, 38382, 39064] @ asc '': 0'' @ [20010]
      @ asc '' (0%)'' @ [10, 35686, 21578] @ asc '': 0'' @ [20010] @ asc '' (0%)''
      @ [10, 20449, 24687] @ asc '': 0'' @ [20010] @ asc '' (0%)'')"
    by (simp add: summaryPromptText_def distributionOnly_def cleanResults_def replace_str_def
        startsWith_def asc_def)
  from buildSummaryPrompt_zero_total [OF z, of exactDiv100 distributionOnly] z t show ?thesis
    by simp
qed

section \<open>Properties of the single-file review\<close>

lemma find_None_iff_all: "(find P xs = None) = (\<forall>x\<in>set xs. \<not> P x)"
  by (induction xs) auto

text \<open>
  C9. When \<open>reviewSingleFile\<close> has fetched the diffs and none of them (in particular when
  there is none at all) has the target path as its new path, it returns \<open>null\<close>: no
  exception, and the fetch is the only call made, so the model is not invoked and no
  comment is submitted.
\<close>

theorem reviewSingleFile_not_found:
  assumes "getCodeDiffs P w = (Inr diffList, w')"
    and "\<forall>d\<in>set diffList. newPath d \<noteq> targetFile"
  shows "reviewSingleFile P targetFile w = (Inr None, w', [GetCodeDiffs])"
proof -
  from assms(2) have "find (\<lambda>diff. newPath diff = targetFile) diffList = None"
    by (simp add: find_None_iff_all)
  with assms(1) show ?thesis
    by (simp add: reviewSingleFile_def)
qed

theorem reviewSingleFile_not_found_witness:
  "getCodeDiffs examplePlatform 0 = (Inr [diffOf (asc ''a.ts'')], 1)
   \<and> list_all (\<lambda>d. newPath d \<noteq> (asc ''b.ts'')) [diffOf (asc ''a.ts'')]
   \<and> reviewSingleFile examplePlatform (asc ''b.ts'') 0 = (Inr None, 1, [GetCodeDiffs])"
proof -
  have g: "getCodeDiffs examplePlatform 0 = (Inr [diffOf (asc ''a.ts'')], 1)"
    by (simp add: examplePlatform_def)
  have n: "\<forall>d\<in>set [diffOf (asc ''a.ts'')]. newPath d \<noteq> (asc ''b.ts'')"
    by (simp add: diffOf_def asc_def)
  from reviewSingleFile_not_found [OF g n] g n show ?thesis
    by (simp add: list_all_iff)
qed

section \<open>Properties of the response parser\<close>

subsection \<open>What a successful match says about the text\<close>

declare problemMatches.simps [simp del] strategy3.simps [simp del] String_nat.simps [simp del]

lemma lit_Some: "lit l k s = Some r \<Longrightarrow> \<exists>t. s = l @ t \<and> k t = Some r"
  by (auto simp: lit_def startsWith_def split: if_splits) (metis append_take_drop_id)

lemma lit_append [simp]: "lit l k (l @ t) = k t"
  by (simp add: lit_def startsWith_def)

lemma greedyStar_Some:
  "greedyStar P k acc s = Some r \<Longrightarrow>
   \<exists>run rest. s = run @ rest \<and> list_all P run \<and> k (acc @ run) rest = Some r"
proof (induction s arbitrary: acc)
  case Nil
  then show ?case by simp
next
  case (Cons c cs)
  show ?case
  proof (cases "P c \<and> greedyStar P k (acc @ [c]) cs \<noteq> None")
    case True
    with Cons.prems have "greedyStar P k (acc @ [c]) cs = Some r"
      by (auto split: option.splits)
    from Cons.IH [OF this] obtain run rest where
      "cs = run @ rest" "list_all P run" "k ((acc @ [c]) @ run) rest = Some r" by blast
    with True have "c # cs = (c # run) @ rest \<and> list_all P (c # run) \<and> k (acc @ (c # run)) rest = Some r"
      by simp
    then show ?thesis by blast
  next
    case False
    with Cons.prems have "k acc (c # cs) = Some r"
      by (auto split: option.splits if_splits)
    then have "c # cs = [] @ (c # cs) \<and> list_all P [] \<and> k (acc @ []) (c # cs) = Some r"
      by simp
    then show ?thesis by blast
  qed
qed

lemma lazyStar_Some:
  "lazyStar P k acc s = Some r \<Longrightarrow>
   \<exists>run rest. s = run @ rest \<and> list_all P run \<and> k (acc @ run) rest = Some r"
proof (induction s arbitrary: acc)
  case Nil
  then show ?case by simp
next
  case (Cons c cs)
  show ?case
  proof (cases "k acc (c # cs)")
    case (Some r')
    with Cons.prems have "k acc (c # cs) = Some r" by simp
    then have "c # cs = [] @ (c # cs) \<and> list_all P [] \<and> k (acc @ []) (c # cs) = Some r"
      by simp
    then show ?thesis by blast
  next
    case None
    with Cons.prems have pc: "P c" and "lazyStar P k (acc @ [c]) cs = Some r"
      by (auto split: if_splits)
    from Cons.IH [OF this(2)] obtain run rest where
      "cs = run @ rest" "list_all P run" "k ((acc @ [c]) @ run) rest = Some r" by blast
    with pc have "c # cs = (c # run) @ rest \<and> list_all P (c # run) \<and> k (acc @ (c # run)) rest = Some r"
      by simp
    then show ?thesis by blast
  qed
qed

lemma star_Some:
  "star P k s = Some r \<Longrightarrow> \<exists>run rest. s = run @ rest \<and> list_all P run \<and> k run rest = Some r"
  using greedyStar_Some [of P k "[]" s r] by (simp add: star_def)

lemma lazy_Some:
  "lazy P k s = Some r \<Longrightarrow> \<exists>run rest. s = run @ rest \<and> list_all P run \<and> k run rest = Some r"
  using lazyStar_Some [of P k "[]" s r] by (simp add: lazy_def)

lemma greedyPlus_Some:
  assumes "greedyPlus P k s = Some r"
  shows "\<exists>c run rest. s = c # run @ rest \<and> P c \<and> list_all P run \<and> k (c # run) rest = Some r"
proof (cases s)
  case Nil
  with assms show ?thesis by (simp add: greedyPlus_def)
next
  case (Cons c cs)
  with assms have pc: "P c" and "greedyStar P k [c] cs = Some r"
    by (auto simp: greedyPlus_def split: if_splits)
  from greedyStar_Some [OF this(2)] obtain run rest where
    "cs = run @ rest" "list_all P run" "k ([c] @ run) rest = Some r" by blast
  with Cons pc show ?thesis by auto
qed

lemma lazyPlus_Some:
  assumes "lazyPlus P k s = Some r"
  shows "\<exists>c run rest. s = c # run @ rest \<and> P c \<and> list_all P run \<and> k (c # run) rest = Some r"
proof (cases s)
  case Nil
  with assms show ?thesis by (simp add: lazyPlus_def)
next
  case (Cons c cs)
  with assms have pc: "P c" and "lazyStar P k [c] cs = Some r"
    by (auto simp: lazyPlus_def split: if_splits)
  from lazyStar_Some [OF this(2)] obtain run rest where
    "cs = run @ rest" "list_all P run" "k ([c] @ run) rest = Some r" by blast
  with Cons pc show ?thesis by auto
qed

lemma alt_Some: "alt m1 m2 s = Some r \<Longrightarrow> m1 s = Some r \<or> m2 s = Some r"
  by (auto simp: alt_def split: option.splits)

lemma search_Some:
  "search m pre s = Some (p, r) \<Longrightarrow> \<exists>u v. s = u @ v \<and> p = pre @ u \<and> m v = Some r"
proof (induction s arbitrary: pre)
  case Nil
  then show ?case by (auto split: option.splits)
next
  case (Cons c cs)
  show ?case
  proof (cases "m (c # cs)")
    case (Some r')
    with Cons.prems have "p = pre" "m (c # cs) = Some r" by auto
    then have "c # cs = [] @ (c # cs) \<and> p = pre @ [] \<and> m (c # cs) = Some r" by simp
    then show ?thesis by blast
  next
    case None
    with Cons.prems have "search m (pre @ [c]) cs = Some (p, r)" by simp
    from Cons.IH [OF this] obtain u v where "cs = u @ v" "p = (pre @ [c]) @ u" "m v = Some r"
      by blast
    then have "c # cs = (c # u) @ v \<and> p = pre @ (c # u) \<and> m v = Some r" by simp
    then show ?thesis by blast
  qed
qed

lemma search_None:
  "(\<And>u v. s = u @ v \<Longrightarrow> m v = None) \<Longrightarrow> search m pre s = None"
proof (induction s arbitrary: pre)
  case Nil
  then show ?case by simp
next
  case (Cons c cs)
  have "m (c # cs) = None" using Cons.prems [of "[]" "c # cs"] by simp
  moreover have "search m (pre @ [c]) cs = None"
  proof (rule Cons.IH)
    fix u v assume "cs = u @ v"
    then show "m v = None" using Cons.prems [of "c # u" v] by simp
  qed
  ultimately show ?case by simp
qed

text \<open>The section separator: three hashes and a white-space character.\<close>

lemma greedyStar_total:
  "(\<And>a t. k a t \<noteq> None) \<Longrightarrow> greedyStar P k acc s \<noteq> None"
  by (induction s arbitrary: acc) (auto split: option.splits)

lemma sectionSeparator_iff:
  "(sectionSeparator s \<noteq> None) = (\<exists>w r. s = 35 # 35 # 35 # w # r \<and> isWhiteSpace w)"
proof
  assume "sectionSeparator s \<noteq> None"
  then obtain rest where "sectionSeparator s = Some rest" by blast
  then obtain t where s: "s = (asc ''###'') @ t"
    and "greedyPlus isWhiteSpace (\<lambda>ws rest. Some rest) t = Some rest"
    unfolding sectionSeparator_def by (blast dest: lit_Some)
  from greedyPlus_Some [OF this(2)] obtain c run rest' where
    "t = c # run @ rest'" and w: "isWhiteSpace c" by blast
  with s have "s = 35 # 35 # 35 # c # (run @ rest')" by (simp add: asc_def)
  with w show "\<exists>w r. s = 35 # 35 # 35 # w # r \<and> isWhiteSpace w" by blast
next
  assume "\<exists>w r. s = 35 # 35 # 35 # w # r \<and> isWhiteSpace w"
  then obtain w r where s: "s = (asc ''###'') @ w # r" and w: "isWhiteSpace w"
    by (auto simp: asc_def)
  have "greedyStar isWhiteSpace (\<lambda>ws rest. Some rest) [w] r \<noteq> None"
    by (rule greedyStar_total) simp
  with w show "sectionSeparator s \<noteq> None"
    unfolding sectionSeparator_def s lit_append by (simp add: greedyPlus_def)
qed

lemma problemHere_header:
  assumes "problemHere v = Some r"
  shows "\<exists>w t. v = 35 # 35 # 35 # 35 # w # t \<and> isWhiteSpace w"
proof -
  from assms obtain t k where v: "v = (asc ''####'') @ t"
    and "greedyPlus isWhiteSpace k t = Some r"
    unfolding problemHere_def by (blast dest: lit_Some)
  from greedyPlus_Some [OF this(2)] obtain c run rest where
    "t = c # run @ rest" and w: "isWhiteSpace c" by blast
  with v have "v = 35 # 35 # 35 # 35 # c # (run @ rest)" by (simp add: asc_def)
  with w show ?thesis by blast
qed

lemma noSeparatorIn_no_header:
  assumes "noSeparatorIn piece s" and "piece = u @ v"
  shows "problemHere v = None"
proof (rule ccontr)
  assume "problemHere v \<noteq> None"
  then obtain r where "problemHere v = Some r" by blast
  from problemHere_header [OF this] obtain w t where
    v: "v = 35 # 35 # 35 # 35 # w # t" and w: "isWhiteSpace w" by blast
  have "Suc (length u) < length piece" using assms(2) v by simp
  with assms(1) have "sectionSeparator (drop (Suc (length u)) (piece @ s)) = None"
    by (simp add: noSeparatorIn_def)
  moreover have "drop (Suc (length u)) (piece @ s) = 35 # 35 # 35 # w # (t @ s)"
    using assms(2) v by simp
  ultimately have "sectionSeparator (35 # 35 # 35 # w # (t @ s)) = None" by simp
  with w sectionSeparator_iff [of "35 # 35 # 35 # w # (t @ s)"] show False by blast
qed

lemma splitSections_no_header:
  "noSeparatorIn piece s \<Longrightarrow> p \<in> set (splitSections piece s) \<Longrightarrow> p = u @ v
   \<Longrightarrow> problemHere v = None"
proof (induction piece s rule: splitSections.induct)
  case (1 piece)
  then have "noSeparatorIn piece []" and "piece = u @ v" by simp_all
  then show ?case by (rule noSeparatorIn_no_header)
next
  case (2 piece c cs)
  show ?case
  proof (cases "sectionSeparator (c # cs)")
    case None
    have "noSeparatorIn (piece @ [c]) cs"
      unfolding noSeparatorIn_def
    proof (intro allI impI)
      fix j assume "j < length (piece @ [c])"
      then consider "j < length piece" | "j = length piece" by fastforce
      then show "sectionSeparator (drop j ((piece @ [c]) @ cs)) = None"
      proof cases
        case 1
        with "2.prems"(1) show ?thesis by (simp add: noSeparatorIn_def)
      next
        case 2
        with None show ?thesis by simp
      qed
    qed
    with "2.IH"(1) [OF None] "2.prems"(2,3) None show ?thesis by simp
  next
    case (Some rest)
    from "2.prems"(2) Some consider "p = piece"
      | "length rest \<le> length cs" "p \<in> set (splitSections [] rest)"
      by (auto split: if_splits)
    then show ?thesis
    proof cases
      case 1
      with "2.prems"(3) have "piece = u @ v" by simp
      with "2.prems"(1) show ?thesis by (rule noSeparatorIn_no_header)
    next
      case 2
      have "noSeparatorIn [] rest" by (simp add: noSeparatorIn_def)
      with "2.IH"(2) [OF Some 2(1)] 2(2) "2.prems"(3) show ?thesis by blast
    qed
  qed
qed

lemma problemMatches_section:
  assumes "p \<in> set (splitSections [] content)"
  shows "problemMatches p = []"
proof -
  have "noSeparatorIn [] content" by (simp add: noSeparatorIn_def)
  then have "\<And>u v. p = u @ v \<Longrightarrow> problemHere v = None"
    using splitSections_no_header assms by blast
  then have "search problemHere [] p = None" by (rule search_None)
  then show ?thesis by (simp add: problemMatches.simps)
qed

text \<open>Strategy 2 never produces an issue.\<close>

lemma strategy2_empty: "strategy2 content = []"
proof -
  have "sectionIssues p = []" if "p \<in> set (splitSections [] content)" for p
    using problemMatches_section [OF that] by (simp add: sectionIssues_def)
  then have "\<forall>p\<in>set (problemSections content). sectionIssues p = []"
    by (simp add: problemSections_def)
  then show ?thesis by (simp add: strategy2_def)
qed

lemmas matcher_eval =
  lit_def litCI_def alt_def star_def greedyPlus_def lazy_def lazyPlus_def startsWith_def
  asc_def anyUnit_def notNewline_def notLineTerminator_def notHash_def isWhiteSpace_def
  isDigit_def isLineTerminator_def canon_def trim_def firstCapture_def

lemmas json_eval =
  JSON_parse_ref_def jsonWs_def parseNumber_def digitsValue_def hexValue_def Let_def
  getProp_def truthy_def bindE_def

lemmas loose_eval =
  strategy3.simps looseHere_def looseColon_def looseSeverity_def looseTail_def looseIssue_def

lemmas summary_eval = extractSummary_def overallHere_def summaryHere_def summaryTail_def

subsection \<open>The rest after a match is shorter\<close>

lemma sectionSeparator_shorter:
  assumes "sectionSeparator s = Some rest"
  shows "length rest < length s"
proof -
  from assms obtain t where s: "s = (asc ''###'') @ t"
    and "greedyPlus isWhiteSpace (\<lambda>ws rest. Some rest) t = Some rest"
    unfolding sectionSeparator_def by (blast dest: lit_Some)
  from greedyPlus_Some [OF this(2)] obtain c run rest' where
    "t = c # run @ rest'" "Some rest' = Some rest" by metis
  with s show ?thesis by simp
qed

lemma looseTail_Some:
  assumes "looseTail a b s = Some (g1, g2, g3, rest)"
  shows "g1 = a \<and> g2 = b \<and> length rest < length s"
proof -
  from greedyPlus_Some [OF assms [unfolded looseTail_def]] obtain c run rest' where
    "s = c # run @ rest'" "Some (a, b, c # run, rest') = Some (g1, g2, g3, rest)" by metis
  then show ?thesis by simp
qed

lemma bracket_Some:
  assumes "lit w (lit [93] (star isWhiteSpace (\<lambda>ws. looseTail a (Some w)))) s = Some (g1, g2, g3, rest)"
  shows "g1 = a \<and> g2 = Some w \<and> length rest < length s"
proof -
  from assms obtain t where s: "s = w @ t"
    and "lit [93] (star isWhiteSpace (\<lambda>ws. looseTail a (Some w))) t = Some (g1, g2, g3, rest)"
    by (blast dest: lit_Some)
  then obtain t' where t: "t = [93] @ t'"
    and "star isWhiteSpace (\<lambda>ws. looseTail a (Some w)) t' = Some (g1, g2, g3, rest)"
    by (blast dest: lit_Some)
  from star_Some [OF this(2)] obtain run r where
    t': "t' = run @ r" and "looseTail a (Some w) r = Some (g1, g2, g3, rest)" by blast
  from looseTail_Some [OF this(2)] s t t' show ?thesis by simp
qed

lemma looseSeverity_Some:
  assumes "looseSeverity a s = Some (g1, g2, g3, rest)"
  shows "g1 = a \<and> severityWord g2 \<and> length rest < length s"
proof -
  from assms consider
      (bracket) t where "s = [91] @ t"
        "alt (lit (asc ''error'') (lit [93] (star isWhiteSpace (\<lambda>ws. looseTail a (Some (asc ''error''))))))
          (alt (lit (asc ''warning'') (lit [93] (star isWhiteSpace (\<lambda>ws. looseTail a (Some (asc ''warning''))))))
               (lit (asc ''info'') (lit [93] (star isWhiteSpace (\<lambda>ws. looseTail a (Some (asc ''info'')))))))
          t = Some (g1, g2, g3, rest)"
    | (plain) "looseTail a None s = Some (g1, g2, g3, rest)"
    unfolding looseSeverity_def by (blast dest: alt_Some lit_Some)
  then show ?thesis
  proof cases
    case bracket
    from bracket(2) have "g1 = a \<and> severityWord g2 \<and> length rest < length t"
      by (auto dest!: alt_Some bracket_Some simp: severityWord_def)
    with bracket(1) show ?thesis by simp
  next
    case plain
    from looseTail_Some [OF this] show ?thesis by (simp add: severityWord_def)
  qed
qed

lemma looseColon_Some:
  assumes "looseColon a s = Some (g1, g2, g3, rest)"
  shows "g1 = a \<and> severityWord g2 \<and> length rest < length s"
proof -
  from star_Some [OF assms [unfolded looseColon_def]] obtain run r where
    s: "s = run @ r"
    and "alt (lit [58] (star isWhiteSpace (\<lambda>ws'. looseSeverity a)))
             (lit [65306] (star isWhiteSpace (\<lambda>ws'. looseSeverity a))) r
         = Some (g1, g2, g3, rest)" by blast
  then obtain colon t where r: "r = colon @ t"
    and "star isWhiteSpace (\<lambda>ws'. looseSeverity a) t = Some (g1, g2, g3, rest)"
    by (blast dest: alt_Some lit_Some)
  from star_Some [OF this(2)] obtain run' r' where
    t: "t = run' @ r'" and "looseSeverity a r' = Some (g1, g2, g3, rest)" by blast
  from looseSeverity_Some [OF this(2)] s r t show ?thesis by simp
qed

lemma looseHere_Some:
  assumes "looseHere s = Some (g1, g2, g3, rest)"
  shows "severityWord g2 \<and> length rest < length s"
proof -
  from assms consider
      (digits) "greedyPlus isDigit (\<lambda>digits. looseColon (Some digits)) s = Some (g1, g2, g3, rest)"
    | (none) "looseColon None s = Some (g1, g2, g3, rest)"
    unfolding looseHere_def by (blast dest: alt_Some)
  then show ?thesis
  proof cases
    case digits
    from greedyPlus_Some [OF this] obtain c run r where
      s: "s = c # run @ r" and "looseColon (Some (c # run)) r = Some (g1, g2, g3, rest)" by blast
    from looseColon_Some [OF this(2)] s show ?thesis by simp
  next
    case none
    from looseColon_Some [OF this] show ?thesis by simp
  qed
qed

lemma looseHere_shorter:
  assumes "search looseHere pre s = Some (p, g1, g2, g3, rest)"
  shows "length rest < length s"
proof -
  from search_Some [OF assms] obtain u v where
    "s = u @ v" "looseHere v = Some (g1, g2, g3, rest)" by blast
  with looseHere_Some [of v g1 g2 g3 rest] show ?thesis by simp
qed

text \<open>A split has at least one piece, so the first and the last paragraph exist.\<close>

lemma splitParagraphs_nonempty: "splitParagraphs piece s \<noteq> []"
  by (induction piece s rule: splitParagraphs.induct) simp_all

subsection \<open>The issues of the text strategies are well formed\<close>

lemma conformsIssue_looseIssue: "severityWord g2 \<Longrightarrow> conformsIssue (looseIssue g1 g2 g3)"
  by (auto simp: severityWord_def conformsIssue_def validSeverity_def getProp_def looseIssue_def
      optionalNumber_def asc_def split: option.splits)

lemma conformsIssue_strategy3: "list_all conformsIssue (strategy3 s)"
proof (induction s rule: strategy3.induct)
  case (1 s)
  show ?case
  proof (cases "search looseHere [] s")
    case None
    then show ?thesis by (simp add: strategy3.simps)
  next
    case (Some m)
    obtain pre g1 g2 g3 rest where m: "m = (pre, g1, g2, g3, rest)" by (cases m) auto
    from search_Some [OF Some [unfolded m]] obtain u v where
      "looseHere v = Some (g1, g2, g3, rest)" by blast
    from looseHere_Some [OF this] have w: "severityWord g2" by simp
    have lt: "length rest < length s" using Some m looseHere_shorter by blast
    from "1.IH" [OF Some [unfolded m] refl refl refl refl lt]
    have "list_all conformsIssue (strategy3 rest)" .
    with w lt Some m show ?thesis
      by (simp add: strategy3.simps [of s] conformsIssue_looseIssue)
  qed
qed

lemma conformsIssue_feedback: "conformsIssue (feedbackIssue content)"
  by (simp add: conformsIssue_def validSeverity_def getProp_def feedbackIssue_def
      optionalString_def asc_def)

lemma conformsIssue_problemIssue:
  assumes "sev = (asc ''error'') \<or> sev = (asc ''warning'') \<or> sev = (asc ''info'')"
  shows "conformsIssue (problemIssue sev problemMatch)"
  using assms
  by (auto simp: conformsIssue_def validSeverity_def getProp_def problemIssue_def
      optionalNumber_def optionalString_def asc_def split: option.splits)

lemma conformsIssue_sectionIssues: "list_all conformsIssue (sectionIssues section)"
  by (simp add: sectionIssues_def Let_def list_all_iff conformsIssue_problemIssue)

lemma conformsIssue_strategy2: "list_all conformsIssue (strategy2 content)"
proof -
  have "\<forall>section\<in>set (problemSections content). list_all conformsIssue (sectionIssues section)"
    by (simp add: conformsIssue_sectionIssues)
  then show ?thesis
    by (auto simp: strategy2_def list_all_iff)
qed

lemma conformsIssue_textIssues: "list_all conformsIssue (textIssues content)"
  by (simp add: textIssues_def Let_def conformsIssue_strategy2 conformsIssue_strategy3
      conformsIssue_feedback)

subsection \<open>Strategy 1\<close>

lemma strategy1_accept:
  assumes "jsonMatch content = Some cap" and "cap \<noteq> []"
    and "JP cap = Inr (JObject kvs)" and "map_of kvs (asc ''issues'') = Some (JArray xs)"
  shows "strategy1 JP content filePath =
         Some \<lparr>file_name = filePath, issues = xs,
               summary = (case map_of kvs (asc ''summary'') of
                            None \<Rightarrow> JStr []
                          | Some v \<Rightarrow> if truthy v then v else JStr [])\<rparr>"
  using assms by (simp add: strategy1_def getProp_def truthy_def split: option.splits)

lemma strategy1_file: "strategy1 JP content filePath = Some r \<Longrightarrow> file_name r = filePath"
  by (auto simp: strategy1_def bindE_def split: option.splits if_splits sum.splits jsval.splits)

lemma parseBody_returns: "\<exists>r. parseBody JP content filePath = Inr r"
  by (simp add: parseBody_def split: option.splits)

text \<open>
  C10. For every input string and every file path, the result of \<open>parseReviewResponse\<close>
  has the \<open>filePath\<close> argument as its file, whichever strategy gives the result, and so
  has the result of the outer \<open>catch\<close> block; a \<open>file\<close> field of the fenced JSON plays no
  part.
\<close>

theorem parseReviewResponse_file:
  "file_name (parseReviewResponse JP content filePath) = filePath
   \<and> file_name (errorResult filePath e) = filePath"
proof
  show "file_name (parseReviewResponse JP content filePath) = filePath"
  proof (cases "strategy1 JP content filePath")
    case None
    then show ?thesis
      by (simp add: parseReviewResponse_def parseBody_def)
  next
    case (Some accepted)
    then have "file_name accepted = filePath"
      by (rule strategy1_file)
    with Some show ?thesis
      by (simp add: parseReviewResponse_def parseBody_def)
  qed
  show "file_name (errorResult filePath e) = filePath"
    by (simp add: errorResult_def)
qed

subsection \<open>Evaluating the examples\<close>

lemma jsonMatch_criticalResponse: "jsonMatch criticalResponse = Some criticalBody"
  by (simp add: criticalResponse_def criticalBody_def fenced_def jsonMatch_def fenceJson_def
      matcher_eval)

lemma parse_criticalBody:
  "JSON_parse_ref criticalBody
   = Inr (JObject [((asc ''issues''), JArray [JObject [((asc ''severity''), JStr (asc ''critical'')),
                                                 ((asc ''message''), JStr [109])]])])"
  by (simp add: criticalBody_def json_eval startsWith_def asc_def isDigit_def)

lemma jsonMatch_jsonResponse: "jsonMatch jsonResponse = Some jsonBody"
  by (simp add: jsonResponse_def jsonBody_def fenced_def jsonMatch_def fenceJson_def matcher_eval)

lemma parse_jsonBody:
  "JSON_parse_ref jsonBody
   = Inr (JObject [((asc ''file''), JStr (asc ''b.ts'')), ((asc ''summary''), JStr (asc ''ok'')),
                   ((asc ''issues''), JArray [JObject [((asc ''severity''), JStr (asc ''error'')),
                                                 ((asc ''line''), JNum (Finite 3)),
                                                 ((asc ''message''), JStr [109])]])])"
  by (simp add: jsonBody_def json_eval startsWith_def asc_def isDigit_def)

lemma jsonMatch_twoBlocks: "jsonMatch twoBlocks = Some [49]"
  by (simp add: twoBlocks_def emptyIssuesBody_def fenced_def jsonMatch_def fenceJson_def
      matcher_eval)

lemma parse_one: "JSON_parse_ref [49] = Inr (JNum (Finite 1))"
  by (simp add: json_eval startsWith_def asc_def isDigit_def)

lemma parse_emptyIssues:
  "JSON_parse_ref emptyIssuesBody = Inr (JObject [((asc ''issues''), JArray [])])"
  by (simp add: emptyIssuesBody_def json_eval startsWith_def asc_def isDigit_def)

lemma strategy3_twoBlocks:
  "strategy3 twoBlocks = [JObject [((asc ''line''), JUndefined), ((asc ''severity''), JStr (asc ''info'')),
                                   ((asc ''message''), JStr (asc ''[]}''))]]"
  by (simp add: twoBlocks_def emptyIssuesBody_def fenced_def loose_eval matcher_eval)

lemma jsonMatch_falseSummary: "jsonMatch falseSummary = Some falseSummaryBody"
  by (simp add: falseSummary_def falseSummaryBody_def fenced_def jsonMatch_def fenceJson_def
      matcher_eval)

lemma parse_falseSummary:
  "JSON_parse_ref falseSummaryBody
   = Inr (JObject [((asc ''issues''), JArray []), ((asc ''summary''), JBool False)])"
  by (simp add: falseSummaryBody_def json_eval startsWith_def asc_def isDigit_def)

lemma jsonMatch_noIssues: "jsonMatch noIssues = Some emptyIssuesBody"
  by (simp add: noIssues_def emptyIssuesBody_def fenced_def jsonMatch_def fenceJson_def
      matcher_eval)

lemma bodies_nonempty:
  "criticalBody \<noteq> []" "jsonBody \<noteq> []" "emptyIssuesBody \<noteq> []" "falseSummaryBody \<noteq> []"
  by (simp_all add: criticalBody_def jsonBody_def emptyIssuesBody_def falseSummaryBody_def asc_def)

lemma jsonMatch_sectionResponse: "jsonMatch sectionResponse = None"
  by (simp add: sectionResponse_def jsonMatch_def fenceJson_def fenceAny_def matcher_eval)

lemma strategy3_sectionResponse:
  "strategy3 sectionResponse = [JObject [((asc ''line''), JUndefined), ((asc ''severity''), JStr (asc ''info'')),
                                         ((asc ''message''), JStr (asc ''message text''))]]"
  by (simp add: sectionResponse_def loose_eval matcher_eval)

lemma extractSummary_sectionResponse: "extractSummary sectionResponse = sectionResponse"
  by (simp add: sectionResponse_def summary_eval matcher_eval)

lemma jsonMatch_looseResponse: "jsonMatch looseResponse = None"
  by (simp add: looseResponse_def jsonMatch_def fenceJson_def fenceAny_def matcher_eval)

lemma strategy3_looseResponse:
  "strategy3 looseResponse =
     [JObject [((asc ''line''), JNum (Finite 12)), ((asc ''severity''), JStr (asc ''warning'')),
               ((asc ''message''), JStr (asc ''unused''))],
      JObject [((asc ''line''), JUndefined), ((asc ''severity''), JStr (asc ''info'')),
               ((asc ''message''), JStr (asc ''fine''))]]"
  by (simp add: looseResponse_def loose_eval matcher_eval digitsValue_def)

lemma jsonMatch_plainResponse: "jsonMatch plainResponse = None"
  by (simp add: plainResponse_def jsonMatch_def fenceJson_def fenceAny_def matcher_eval)

lemma strategy3_plainResponse: "strategy3 plainResponse = []"
  by (simp add: plainResponse_def loose_eval matcher_eval)

lemma trim_plainResponse: "trim plainResponse = (asc ''Looks good to me'')"
  by (simp add: plainResponse_def matcher_eval)

text \<open>What Strategy 1 does with the fenced examples.\<close>

lemma strategy1_jsonResponse:
  "strategy1 JSON_parse_ref jsonResponse filePath =
     Some \<lparr>file_name = filePath,
           issues = [JObject [((asc ''severity''), JStr (asc ''error'')), ((asc ''line''), JNum (Finite 3)),
                              ((asc ''message''), JStr [109])]],
           summary = JStr (asc ''ok'')\<rparr>"
  by (simp add: strategy1_def jsonMatch_jsonResponse bodies_nonempty parse_jsonBody getProp_def
      truthy_def asc_def)

lemma strategy1_criticalResponse:
  "strategy1 JSON_parse_ref criticalResponse filePath =
     Some \<lparr>file_name = filePath,
           issues = [JObject [((asc ''severity''), JStr (asc ''critical'')), ((asc ''message''), JStr [109])]],
           summary = JStr []\<rparr>"
  by (simp add: strategy1_def jsonMatch_criticalResponse bodies_nonempty parse_criticalBody
      getProp_def truthy_def asc_def)

lemma strategy1_noIssues:
  "strategy1 JSON_parse_ref noIssues filePath =
     Some \<lparr>file_name = filePath, issues = [], summary = JStr []\<rparr>"
  by (simp add: strategy1_def jsonMatch_noIssues bodies_nonempty parse_emptyIssues getProp_def
      truthy_def asc_def)

lemma strategy1_falseSummary:
  "strategy1 JSON_parse_ref falseSummary filePath =
     Some \<lparr>file_name = filePath, issues = [], summary = JStr []\<rparr>"
  by (simp add: strategy1_def jsonMatch_falseSummary bodies_nonempty parse_falseSummary
      getProp_def truthy_def asc_def)

lemma strategy1_twoBlocks: "strategy1 JSON_parse_ref twoBlocks filePath = None"
  by (simp add: strategy1_def jsonMatch_twoBlocks parse_one getProp_def asc_def)

theorem parseReviewResponse_file_witness:
  "parseReviewResponse JSON_parse_ref jsonResponse (asc ''a.ts'') =
       \<lparr>file_name = (asc ''a.ts''),
        issues = [JObject [((asc ''severity''), JStr (asc ''error'')), ((asc ''line''), JNum (Finite 3)),
                           ((asc ''message''), JStr [109])]],
        summary = JStr (asc ''ok'')\<rparr>
   \<and> file_name (parseReviewResponse JSON_parse_ref jsonResponse (asc ''a.ts'')) = (asc ''a.ts'')"
  using parseReviewResponse_file [of JSON_parse_ref jsonResponse "(asc ''a.ts'')"]
  by (simp add: parseReviewResponse_def parseBody_def strategy1_jsonResponse)

text \<open>
  C2 (as amended). When the first fenced block of the response (the first match of the
  \<open>json\<close>-labelled fence or else of any fence) has a non-empty content that \<open>JSON.parse\<close>
  turns into an object whose \<open>issues\<close> is an array, \<open>parseReviewResponse\<close> returns the file
  path argument, that array as it is, and as summary the parsed \<open>summary\<close> if it is truthy
  and \<open>''\<close> otherwise; no text strategy contributes.
\<close>

theorem parseReviewResponse_fenced_json:
  assumes "jsonMatch content = Some cap" and "cap \<noteq> []"
    and "JP cap = Inr (JObject kvs)" and "map_of kvs (asc ''issues'') = Some (JArray xs)"
  shows "parseReviewResponse JP content filePath =
         \<lparr>file_name = filePath, issues = xs,
          summary = (case map_of kvs (asc ''summary'') of
                       None \<Rightarrow> JStr []
                     | Some v \<Rightarrow> if truthy v then v else JStr [])\<rparr>"
  by (simp add: parseReviewResponse_def parseBody_def
      strategy1_accept [where JP = JP and cap = cap and kvs = kvs, OF assms])

theorem parseReviewResponse_fenced_json_witness:
  "jsonMatch jsonResponse = Some jsonBody
   \<and> jsonBody \<noteq> []
   \<and> JSON_parse_ref jsonBody
       = Inr (JObject [((asc ''file''), JStr (asc ''b.ts'')), ((asc ''summary''), JStr (asc ''ok'')),
                       ((asc ''issues''), JArray [JObject [((asc ''severity''), JStr (asc ''error'')),
                                                     ((asc ''line''), JNum (Finite 3)),
                                                     ((asc ''message''), JStr [109])]])])
   \<and> parseReviewResponse JSON_parse_ref jsonResponse (asc ''a.ts'')
       = \<lparr>file_name = (asc ''a.ts''),
          issues = [JObject [((asc ''severity''), JStr (asc ''error'')), ((asc ''line''), JNum (Finite 3)),
                             ((asc ''message''), JStr [109])]],
          summary = JStr (asc ''ok'')\<rparr>"
proof -
  have m: "map_of [((asc ''file''), JStr (asc ''b.ts'')), ((asc ''summary''), JStr (asc ''ok'')),
                   ((asc ''issues''), JArray [JObject [((asc ''severity''), JStr (asc ''error'')),
                                                 ((asc ''line''), JNum (Finite 3)),
                                                 ((asc ''message''), JStr [109])]])] (asc ''issues'')
           = Some (JArray [JObject [((asc ''severity''), JStr (asc ''error'')), ((asc ''line''), JNum (Finite 3)),
                                    ((asc ''message''), JStr [109])]])"
    by (simp add: asc_def)
  from parseReviewResponse_fenced_json
         [where JP = JSON_parse_ref and cap = jsonBody and filePath = "(asc ''a.ts'')",
          OF jsonMatch_jsonResponse bodies_nonempty(2) parse_jsonBody m]
  have "parseReviewResponse JSON_parse_ref jsonResponse (asc ''a.ts'')
       = \<lparr>file_name = (asc ''a.ts''),
          issues = [JObject [((asc ''severity''), JStr (asc ''error'')), ((asc ''line''), JNum (Finite 3)),
                             ((asc ''message''), JStr [109])]],
          summary = JStr (asc ''ok'')\<rparr>"
    by (simp add: truthy_def asc_def)
  with jsonMatch_jsonResponse bodies_nonempty(2) parse_jsonBody show ?thesis by simp
qed

text \<open>
  The claim as stated fails on two counts. A response with two fenced blocks, of which
  the second holds an \<open>issues\<close> array, is parsed from its first block: here that is the
  number 1, Strategy 1 does not accept, and the loose scan makes an issue out of the
  colon of the second block. And a summary that is present but falsy, here \<open>false\<close>, is
  replaced by \<open>''\<close>.
\<close>

theorem parseReviewResponse_fenced_json_counterexample:
  "twoBlocks = fenced [49] @ [10] @ fenced emptyIssuesBody
   \<and> JSON_parse_ref emptyIssuesBody = Inr (JObject [((asc ''issues''), JArray [])])
   \<and> issues (parseReviewResponse JSON_parse_ref twoBlocks (asc ''a.ts''))
       = [JObject [((asc ''line''), JUndefined), ((asc ''severity''), JStr (asc ''info'')),
                   ((asc ''message''), JStr (asc ''[]}''))]]
   \<and> falseSummary = fenced falseSummaryBody
   \<and> JSON_parse_ref falseSummaryBody
       = Inr (JObject [((asc ''issues''), JArray []), ((asc ''summary''), JBool False)])
   \<and> summary (parseReviewResponse JSON_parse_ref falseSummary (asc ''a.ts'')) = JStr []"
proof -
  have b: "issues (parseReviewResponse JSON_parse_ref twoBlocks (asc ''a.ts''))
       = [JObject [((asc ''line''), JUndefined), ((asc ''severity''), JStr (asc ''info'')),
                   ((asc ''message''), JStr (asc ''[]}''))]]"
    by (simp add: parseReviewResponse_def parseBody_def strategy1_twoBlocks textIssues_def
        strategy2_empty strategy3_twoBlocks)
  have d: "summary (parseReviewResponse JSON_parse_ref falseSummary (asc ''a.ts'')) = JStr []"
    by (simp add: parseReviewResponse_def parseBody_def strategy1_falseSummary)
  from b d parse_emptyIssues parse_falseSummary show ?thesis
    by (simp add: twoBlocks_def falseSummary_def)
qed

text \<open>
  C5. For a response without a fenced block that has a red-circle level-3 section and the
  level-4 header \<open>#### \u7b2c12\u884c: message text\<close>, the claim expects an issue of severity
  \<open>error\<close> at line 12. The split on \<open>/###\s+/\<close> cuts every level-4 header after its first
  hash, so no section holds a header and Strategy 2 finds nothing (lemma \<open>strategy2_empty\<close>);
  the loose scan then gives one issue of severity \<open>info\<close> without a line.
\<close>

theorem parseReviewResponse_section:
  "splitSections [] sectionResponse = [[], [55357, 56628, 32, 20005, 37325, 38382, 39064, 10, 35], ([31532] @ asc ''12'' @ [34892] @ asc '': message text'')]
   \<and> parseReviewResponse JP sectionResponse filePath =
       \<lparr>file_name = filePath,
        issues = [JObject [((asc ''line''), JUndefined), ((asc ''severity''), JStr (asc ''info'')),
                           ((asc ''message''), JStr (asc ''message text''))]],
        summary = JStr sectionResponse\<rparr>"
proof -
  have a: "splitSections [] sectionResponse = [[], [55357, 56628, 32, 20005, 37325, 38382, 39064, 10, 35], ([31532] @ asc ''12'' @ [34892] @ asc '': message text'')]"
    by (simp add: sectionResponse_def sectionSeparator_def matcher_eval)
  have "strategy1 JP sectionResponse filePath = None"
    by (simp add: strategy1_def jsonMatch_sectionResponse)
  then have "parseReviewResponse JP sectionResponse filePath =
       \<lparr>file_name = filePath,
        issues = [JObject [((asc ''line''), JUndefined), ((asc ''severity''), JStr (asc ''info'')),
                           ((asc ''message''), JStr (asc ''message text''))]],
        summary = JStr sectionResponse\<rparr>"
    by (simp add: parseReviewResponse_def parseBody_def textIssues_def strategy2_empty
        strategy3_sectionResponse extractSummary_sectionResponse)
  with a show ?thesis by simp
qed

text \<open>
  C6 (as amended). For every response that is not blank, for which Strategy 1 does not
  accept a fenced JSON block and in which neither the sections nor the loose scan find an
  issue, the result has exactly one issue: severity \<open>info\<close>, the fixed message, and the
  trimmed response as suggestion.
\<close>

theorem parseReviewResponse_fallback:
  assumes "strategy1 JP content filePath = None"
    and "strategy2 content = []" and "strategy3 content = []" and "trim content \<noteq> []"
  shows "issues (parseReviewResponse JP content filePath) =
         [JObject [((asc ''severity''), JStr (asc ''info'')), ((asc ''message''), JStr [23457, 26597, 21453, 39304]),
                   ((asc ''suggestion''), JStr (trim content))]]"
  using assms
  by (simp add: parseReviewResponse_def parseBody_def textIssues_def feedbackIssue_def)

theorem parseReviewResponse_fallback_witness:
  "strategy1 JSON_parse_ref plainResponse (asc ''a.ts'') = None
   \<and> strategy2 plainResponse = [] \<and> strategy3 plainResponse = []
   \<and> trim plainResponse = (asc ''Looks good to me'')
   \<and> issues (parseReviewResponse JSON_parse_ref plainResponse (asc ''a.ts'')) =
         [JObject [((asc ''severity''), JStr (asc ''info'')), ((asc ''message''), JStr [23457, 26597, 21453, 39304]),
                   ((asc ''suggestion''), JStr (asc ''Looks good to me''))]]"
proof -
  have s1: "strategy1 JSON_parse_ref plainResponse (asc ''a.ts'') = None"
    by (simp add: strategy1_def jsonMatch_plainResponse)
  have t: "trim plainResponse \<noteq> []"
    by (simp add: trim_plainResponse asc_def)
  from parseReviewResponse_fallback [OF s1 strategy2_empty strategy3_plainResponse t]
    s1 strategy2_empty [of plainResponse] strategy3_plainResponse trim_plainResponse
  show ?thesis by simp
qed

text \<open>
  The claim as stated fails where Strategy 1 accepts an empty \<open>issues\<close> array: the
  response is not blank, no strategy has produced an issue (the text strategies do not
  run), and the result has no issue at all.
\<close>

theorem parseReviewResponse_fallback_counterexample:
  "trim noIssues = noIssues \<and> noIssues \<noteq> []
   \<and> strategy1 JSON_parse_ref noIssues (asc ''a.ts'')
       = Some \<lparr>file_name = (asc ''a.ts''), issues = [], summary = JStr []\<rparr>
   \<and> issues (parseReviewResponse JSON_parse_ref noIssues (asc ''a.ts'')) = []"
proof -
  have t: "trim noIssues = noIssues \<and> noIssues \<noteq> []"
    by (simp add: noIssues_def emptyIssuesBody_def fenced_def matcher_eval)
  have "issues (parseReviewResponse JSON_parse_ref noIssues (asc ''a.ts'')) = []"
    by (simp add: parseReviewResponse_def parseBody_def strategy1_noIssues)
  with t strategy1_noIssues [of "(asc ''a.ts'')"] show ?thesis by simp
qed

text \<open>
  C1 (as amended). For every input string and file path the body of
  \<open>parseReviewResponse\<close> returns a result: it raises nothing, so the function returns
  without throwing. When Strategy 1 does not accept a fenced JSON block, every issue of
  the result conforms to the issue schema, with a severity that is one of \<open>info\<close>,
  \<open>warning\<close> and \<open>error\<close>, and the summary is a string; when it accepts, the issues are the
  parsed array, which is not checked. The result of the outer \<open>catch\<close> block has a single
  issue, of severity \<open>error\<close>, whose suggestion is the error as a string.
\<close>

theorem parseReviewResponse_total:
  "(\<exists>r. parseBody JP content filePath = Inr r)
   \<and> (strategy1 JP content filePath = None \<longrightarrow>
        list_all conformsIssue (issues (parseReviewResponse JP content filePath))
        \<and> list_all validSeverity (issues (parseReviewResponse JP content filePath))
        \<and> summary (parseReviewResponse JP content filePath) = JStr (extractSummary content))
   \<and> issues (errorResult filePath e) =
         [JObject [((asc ''severity''), JStr (asc ''error'')), ((asc ''message''), JStr [35299, 26512, 23457, 26597, 32467, 26524, 26102, 20986, 38169]),
                   ((asc ''suggestion''), JStr (String_error e))]]
   \<and> list_all validSeverity (issues (errorResult filePath e))"
proof -
  have v: "conformsIssue i \<Longrightarrow> validSeverity i" for i
    by (auto simp: conformsIssue_def split: jsval.splits)
  have "list_all validSeverity (textIssues content)"
    using conformsIssue_textIssues [of content] v by (simp add: list_all_iff)
  then show ?thesis
    using parseBody_returns [of JP content filePath] conformsIssue_textIssues [of content]
    by (simp add: parseReviewResponse_def parseBody_def errorResult_def validSeverity_def
        getProp_def asc_def)
qed

theorem parseReviewResponse_total_witness:
  "strategy1 JSON_parse_ref looseResponse (asc ''a.ts'') = None
   \<and> issues (parseReviewResponse JSON_parse_ref looseResponse (asc ''a.ts'')) =
       [JObject [((asc ''line''), JNum (Finite 12)), ((asc ''severity''), JStr (asc ''warning'')),
                 ((asc ''message''), JStr (asc ''unused''))],
        JObject [((asc ''line''), JUndefined), ((asc ''severity''), JStr (asc ''info'')),
                 ((asc ''message''), JStr (asc ''fine''))]]
   \<and> list_all validSeverity (issues (parseReviewResponse JSON_parse_ref looseResponse (asc ''a.ts'')))"
proof -
  have s1: "strategy1 JSON_parse_ref looseResponse (asc ''a.ts'') = None"
    by (simp add: strategy1_def jsonMatch_looseResponse)
  then have i: "issues (parseReviewResponse JSON_parse_ref looseResponse (asc ''a.ts'')) =
       [JObject [((asc ''line''), JNum (Finite 12)), ((asc ''severity''), JStr (asc ''warning'')),
                 ((asc ''message''), JStr (asc ''unused''))],
        JObject [((asc ''line''), JUndefined), ((asc ''severity''), JStr (asc ''info'')),
                 ((asc ''message''), JStr (asc ''fine''))]]"
    by (simp add: parseReviewResponse_def parseBody_def textIssues_def strategy2_empty
        strategy3_looseResponse)
  from parseReviewResponse_total [of JSON_parse_ref looseResponse "(asc ''a.ts'')"] s1
  have "list_all validSeverity (issues (parseReviewResponse JSON_parse_ref looseResponse (asc ''a.ts'')))"
    by blast
  with s1 i show ?thesis by blast
qed

text \<open>
  The claim as stated fails where Strategy 1 accepts: the severity \<open>critical\<close> of the
  model's issue is returned as it is.
\<close>

theorem parseReviewResponse_total_counterexample:
  "issues (parseReviewResponse JSON_parse_ref criticalResponse (asc ''a.ts''))
     = [JObject [((asc ''severity''), JStr (asc ''critical'')), ((asc ''message''), JStr [109])]]
   \<and> \<not> list_all validSeverity (issues (parseReviewResponse JSON_parse_ref criticalResponse (asc ''a.ts'')))"
proof -
  have i: "issues (parseReviewResponse JSON_parse_ref criticalResponse (asc ''a.ts''))
     = [JObject [((asc ''severity''), JStr (asc ''critical'')), ((asc ''message''), JStr [109])]]"
    by (simp add: parseReviewResponse_def parseBody_def strategy1_criticalResponse)
  have "\<not> validSeverity (JObject [((asc ''severity''), JStr (asc ''critical'')), ((asc ''message''), JStr [109])])"
    by (simp add: validSeverity_def getProp_def asc_def)
  with i show ?thesis by simp
qed


end
